theory Spec2Isabelle
  imports Main
begin

section \<open>Go values, reflection and the heap\<close>

text \<open>
  The pipeline works on \<^verbatim>\<open>interface{}\<close> values through package \<^verbatim>\<open>reflect\<close>. A model is a
  struct with named fields; the repository's models (\<^verbatim>\<open>TestModel\<close>, \<^verbatim>\<open>ComplexTestModel\<close>,
  \<^verbatim>\<open>User\<close>) have \<^verbatim>\<open>uint\<close> and \<^verbatim>\<open>string\<close> fields, and those are the field kinds kept here.
  An interface value carries its dynamic type; a pointer is an address into a heap of
  cells, or nil. The heap is a list: allocation appends, so the address of a freshly
  allocated cell is the length of the heap before.
\<close>

type_synonym addr = nat

datatype fval = FUint nat | FString string

datatype ftype = FTUint | FTString

type_synonym fields = "(string \<times> fval) list"

type_synonym decl = "(string \<times> ftype) list"

datatype gotype = TStruct string decl | TUint | TString | TPtr gotype | TSlice gotype

datatype val = VNil | VUint nat | VString string | VStruct string fields | VPtr gotype "addr option"

datatype cell = CStruct fields | CSlice "fields list"

datatype kind = KInvalid | KUint | KString | KStruct | KPtr | KSlice

fun ftype_of :: "fval \<Rightarrow> ftype" where
  "ftype_of (FUint _) = FTUint"
| "ftype_of (FString _) = FTString"

fun zero_fval :: "ftype \<Rightarrow> fval" where
  "zero_fval FTUint = FUint 0"
| "zero_fval FTString = FString []"

definition decl_of :: "fields \<Rightarrow> decl" where
  "decl_of fs = map (\<lambda>(n, v). (n, ftype_of v)) fs"

definition zero_fields :: "decl \<Rightarrow> fields" where
  "zero_fields d = map (\<lambda>(n, t). (n, zero_fval t)) d"

text \<open>\<^verbatim>\<open>reflect.TypeOf\<close>: the dynamic type, absent for the nil interface.\<close>

fun TypeOf :: "val \<Rightarrow> gotype option" where
  "TypeOf VNil = None"
| "TypeOf (VUint _) = Some TUint"
| "TypeOf (VString _) = Some TString"
| "TypeOf (VStruct n fs) = Some (TStruct n (decl_of fs))"
| "TypeOf (VPtr t _) = Some (TPtr t)"

fun Kind :: "gotype \<Rightarrow> kind" where
  "Kind (TStruct _ _) = KStruct"
| "Kind TUint = KUint"
| "Kind TString = KString"
| "Kind (TPtr _) = KPtr"
| "Kind (TSlice _) = KSlice"

text \<open>\<^verbatim>\<open>Type.Elem\<close> panics (\<open>None\<close>) on a type that has no element type.\<close>

fun Elem :: "gotype \<Rightarrow> gotype option" where
  "Elem (TPtr t) = Some t"
| "Elem (TSlice t) = Some t"
| "Elem _ = None"

text \<open>\<^verbatim>\<open>Type.Name\<close>: the name of a defined type, empty for pointer and slice types.\<close>

fun Name :: "gotype \<Rightarrow> string" where
  "Name (TStruct n _) = n"
| "Name TUint = ''uint''"
| "Name TString = ''string''"
| "Name (TPtr _) = []"
| "Name (TSlice _) = []"

text \<open>\<^verbatim>\<open>reflect.ValueOf(v).Kind()\<close>; the zero Value of the nil interface has kind Invalid.\<close>

definition ValueKind :: "val \<Rightarrow> kind" where
  "ValueKind v = (case TypeOf v of None \<Rightarrow> KInvalid | Some t \<Rightarrow> Kind t)"

text \<open>
  \<^verbatim>\<open>reflect.ValueOf(v).Elem().Kind()\<close> for a pointer \<open>v\<close>: a nil pointer gives the zero
  Value, whose kind is Invalid. On a value that is neither pointer nor interface
  \<^verbatim>\<open>Elem\<close> panics (\<open>None\<close>).
\<close>

fun ElemKind :: "val \<Rightarrow> kind option" where
  "ElemKind (VPtr t None) = Some KInvalid"
| "ElemKind (VPtr t (Some a)) = Some (Kind t)"
| "ElemKind _ = None"

definition heap_get :: "cell list \<Rightarrow> addr \<Rightarrow> cell option" where
  "heap_get h a = (if a < length h then Some (h ! a) else None)"

text \<open>The struct a pointer refers to; \<open>None\<close> where the Go operation on it would panic.\<close>

fun deref_struct :: "cell list \<Rightarrow> val \<Rightarrow> fields option" where
  "deref_struct h (VPtr (TStruct n d) (Some a)) =
     (case heap_get h a of Some (CStruct fs) \<Rightarrow> Some fs | _ \<Rightarrow> None)"
| "deref_struct h _ = None"

fun deref_slice :: "cell list \<Rightarrow> val \<Rightarrow> fields list option" where
  "deref_slice h (VPtr (TSlice t) (Some a)) =
     (case heap_get h a of Some (CSlice xs) \<Rightarrow> Some xs | _ \<Rightarrow> None)"
| "deref_slice h _ = None"

text \<open>\<^verbatim>\<open>reflect.New(t).Interface()\<close>: a pointer to a fresh zero value of type \<open>t\<close>.\<close>

fun zero_cell :: "gotype \<Rightarrow> cell option" where
  "zero_cell (TStruct n d) = Some (CStruct (zero_fields d))"
| "zero_cell (TSlice t) = Some (CSlice [])"
| "zero_cell _ = None"

definition New :: "gotype \<Rightarrow> cell list \<Rightarrow> (val \<times> cell list) option" where
  "New t h = (case zero_cell t of None \<Rightarrow> None
              | Some c \<Rightarrow> Some (VPtr t (Some (length h)), h @ [c]))"

text \<open>\<^verbatim>\<open>Value.FieldByName\<close> on a struct: the field's value, or the invalid Value.\<close>

definition FieldByName :: "fields \<Rightarrow> string \<Rightarrow> fval option" where
  "FieldByName fs n = map_of fs n"

text \<open>
  \<^verbatim>\<open>dest.FieldByName(n).Set(v)\<close>: panics (\<open>None\<close>) when the field is missing or of another
  type than \<open>v\<close>.
\<close>

fun SetField :: "fields \<Rightarrow> string \<Rightarrow> fval \<Rightarrow> fields option" where
  "SetField [] n v = None"
| "SetField ((m, w) # fs) n v =
     (if m = n then (if ftype_of w = ftype_of v then Some ((m, v) # fs) else None)
      else map_option (\<lambda>fs'. (m, w) # fs') (SetField fs n v))"

section \<open>Errors and the storage capability\<close>

datatype dberr = ErrRecordNotFound | ErrInvalidTransaction | ErrInvalidData | ErrOther string

datatype error = FiberError nat string | DBError dberr | OtherError string

abbreviation StatusOK :: nat where "StatusOK \<equiv> 200"
abbreviation StatusNoContent :: nat where "StatusNoContent \<equiv> 204"
abbreviation StatusBadRequest :: nat where "StatusBadRequest \<equiv> 400"
abbreviation StatusNotFound :: nat where "StatusNotFound \<equiv> 404"
abbreviation StatusInternalServerError :: nat where "StatusInternalServerError \<equiv> 500"

text \<open>
  Interface \<^verbatim>\<open>GormDB\<close> (provider.go): five methods, each handed an \<^verbatim>\<open>interface{}\<close> and
  returning a \<^verbatim>\<open>*gorm.DB\<close> whose \<^verbatim>\<open>Error\<close> field the callers read. An implementation
  sees the heap and its own state \<open>'db\<close>; it returns the error (if any), the heap and its
  state afterwards, or panics (\<open>None\<close>).
\<close>

type_synonym 'db dbop = "cell list \<Rightarrow> 'db \<Rightarrow> (dberr option \<times> cell list \<times> 'db) option"

record 'db GormDB =
  First :: "val \<Rightarrow> val list \<Rightarrow> 'db dbop"
  Find :: "val \<Rightarrow> 'db dbop"
  Create :: "val \<Rightarrow> 'db dbop"
  Save :: "val \<Rightarrow> 'db dbop"
  Delete :: "val \<Rightarrow> 'db dbop"

text \<open>
  Every call of a storage method is recorded, with its argument and the heap it was
  handed, in a log that the program itself never reads.
\<close>

datatype dbcall =
    CallFirst val "val list" "cell list"
  | CallFind val "cell list"
  | CallCreate val "cell list"
  | CallSave val "cell list"
  | CallDelete val "cell list"

record 'db world =
  heap :: "cell list"
  store :: 'db
  calls :: "dbcall list"

definition invoke :: "(cell list \<Rightarrow> dbcall) \<Rightarrow> 'db dbop \<Rightarrow> 'db world \<Rightarrow> (dberr option \<times> 'db world) option" where
  "invoke lg f w =
     (case f (heap w) (store w) of
        None \<Rightarrow> None
      | Some (e, h', d') \<Rightarrow> Some (e, \<lparr>heap = h', store = d', calls = calls w @ [lg (heap w)]\<rparr>))"

section \<open>The request context\<close>

text \<open>
  \<^verbatim>\<open>*fiber.Ctx\<close> as the pipeline uses it: the method, the path parameters, the request
  body, the per-request key-value store and the response being written. A fresh context
  has status 200 and an empty response body. \<^verbatim>\<open>c.Params(k)\<close> and \<^verbatim>\<open>c.Locals(k)\<close> give the
  empty string and nil for a key that is not there.
\<close>

record Ctx =
  Method :: string
  Params :: "string \<rightharpoonup> string"
  Body :: string
  Locals :: "string \<rightharpoonup> val"
  Status :: nat
  RespBody :: string

definition ctx_Params :: "Ctx \<Rightarrow> string \<Rightarrow> string" where
  "ctx_Params c k = (case Params c k of None \<Rightarrow> [] | Some v \<Rightarrow> v)"

definition ctx_Locals :: "Ctx \<Rightarrow> string \<Rightarrow> val" where
  "ctx_Locals c k = (case Locals c k of None \<Rightarrow> VNil | Some v \<Rightarrow> v)"

definition ctx_SetLocals :: "Ctx \<Rightarrow> string \<Rightarrow> val \<Rightarrow> Ctx" where
  "ctx_SetLocals c k v = c\<lparr>Locals := (Locals c)(k \<mapsto> v)\<rparr>"

text \<open>
  The two configurable codecs of the Fiber application: the JSON encoder behind
  \<^verbatim>\<open>c.JSON\<close>, which may fail, and the body decoder behind \<^verbatim>\<open>c.BodyParser\<close>, which fills a
  struct of the given type from the request body or fails (\<open>None\<close>).
\<close>

record fiber =
  JSONEncoder :: "cell list \<Rightarrow> val \<Rightarrow> error + string"
  BodyParser :: "string \<Rightarrow> gotype \<Rightarrow> fields \<Rightarrow> fields option"

text \<open>
  \<^verbatim>\<open>c.SendStatus(s)\<close> sets the status. A 204 response is sent without a body, whatever
  has been written to the context before; that is the one status the pipeline sends.
\<close>

definition ctx_SendStatus :: "nat \<Rightarrow> Ctx \<Rightarrow> error option \<times> Ctx" where
  "ctx_SendStatus s c =
     (None, c\<lparr>Status := s, RespBody := (if s = StatusNoContent then [] else RespBody c)\<rparr>)"

text \<open>\<^verbatim>\<open>c.JSON(v)\<close> writes the encoding as the body and leaves the status as it is.\<close>

definition ctx_JSON :: "fiber \<Rightarrow> cell list \<Rightarrow> val \<Rightarrow> Ctx \<Rightarrow> error option \<times> Ctx" where
  "ctx_JSON fb h v c =
     (case JSONEncoder fb h v of
        Inl e \<Rightarrow> (Some e, c)
      | Inr raw \<Rightarrow> (None, c\<lparr>RespBody := raw\<rparr>))"

type_synonym 'db st = "Ctx \<times> 'db world"

type_synonym 'db ret = "((val \<times> error option) \<times> 'db st) option"

section \<open>Model validation (validation.go)\<close>

definition validateModel :: "Ctx \<Rightarrow> val \<times> error option" where
  "validateModel c =
     (let modelType = ctx_Locals c ''model'' in
      if modelType = VNil then (VNil, Some (FiberError StatusBadRequest ''model not found in context''))
      else if ValueKind modelType \<noteq> KPtr \<or> ElemKind modelType \<noteq> Some KStruct
      then (VNil, Some (FiberError StatusBadRequest ''invalid model type''))
      else (modelType, None))"

section \<open>The default provider (provider.go)\<close>

text \<open>
  \<^verbatim>\<open>findById\<close> hands the validated descriptor itself to \<^verbatim>\<open>First\<close> as the destination and
  returns it.
\<close>

definition findById :: "'db GormDB \<Rightarrow> string \<Rightarrow> val \<Rightarrow> 'db st \<Rightarrow> 'db ret" where
  "findById p ident modelType s =
     (case s of (c, w) \<Rightarrow>
       (case invoke (CallFirst modelType [VString ident]) (First p modelType [VString ident]) w of
          None \<Rightarrow> None
        | Some (Some e, w') \<Rightarrow>
            if e = ErrRecordNotFound
            then Some ((VNil, Some (FiberError StatusNotFound ''record not found'')), (c, w'))
            else Some ((VNil, Some (FiberError StatusInternalServerError ''database error'')), (c, w'))
        | Some (None, w') \<Rightarrow> Some ((modelType, None), (c, w'))))"

text \<open>
  \<^verbatim>\<open>findAll\<close> allocates a new slice of the descriptor's element type and hands a pointer
  to it to \<^verbatim>\<open>Find\<close>.
\<close>

definition findAll :: "'db GormDB \<Rightarrow> val \<Rightarrow> 'db st \<Rightarrow> 'db ret" where
  "findAll p modelType s =
     (case s of (c, w) \<Rightarrow>
       (case TypeOf modelType of
          None \<Rightarrow> None
        | Some t \<Rightarrow>
           (case Elem t of
              None \<Rightarrow> None
            | Some et \<Rightarrow>
               (case New (TSlice et) (heap w) of
                  None \<Rightarrow> None
                | Some (results, h1) \<Rightarrow>
                   (case invoke (CallFind results) (Find p results) (w\<lparr>heap := h1\<rparr>) of
                      None \<Rightarrow> None
                    | Some (Some e, w') \<Rightarrow>
                        Some ((VNil, Some (FiberError StatusInternalServerError ''failed to fetch records'')), (c, w'))
                    | Some (None, w') \<Rightarrow> Some ((results, None), (c, w')))))))"

definition Provide :: "'db GormDB \<Rightarrow> 'db st \<Rightarrow> 'db ret" where
  "Provide p s =
     (case validateModel (fst s) of
        (_, Some err) \<Rightarrow> Some ((VNil, Some err), s)
      | (modelType, None) \<Rightarrow>
          (let ident = ctx_Params (fst s) ''id'' in
           if ident \<noteq> [] then findById p ident modelType s else findAll p modelType s))"

section \<open>The default processor\<close>

text \<open>
  \<^verbatim>\<open>c.BodyParser(out)\<close> decodes the request body into the struct \<open>out\<close> points to; it
  reports an error when decoding fails or \<open>out\<close> is not a pointer to a struct.
\<close>

definition store_struct :: "cell list \<Rightarrow> val \<Rightarrow> fields \<Rightarrow> cell list" where
  "store_struct h p fs = (case p of VPtr t (Some a) \<Rightarrow> h[a := CStruct fs] | _ \<Rightarrow> h)"

definition ctx_BodyParser :: "fiber \<Rightarrow> Ctx \<Rightarrow> val \<Rightarrow> cell list \<Rightarrow> error option \<times> cell list" where
  "ctx_BodyParser fb c out h =
     (case (TypeOf out, deref_struct h out) of
        (Some (TPtr t), Some fs) \<Rightarrow>
          (case BodyParser fb (Body c) t fs of
             None \<Rightarrow> (Some (OtherError ''cannot decode request body''), h)
           | Some fs' \<Rightarrow> (None, store_struct h out fs'))
      | _ \<Rightarrow> (Some (OtherError ''cannot decode request body''), h))"

text \<open>\<^verbatim>\<open>reflect.New(reflect.ValueOf(modelType).Type().Elem()).Interface()\<close>\<close>

definition newInstanceOf :: "val \<Rightarrow> cell list \<Rightarrow> (val \<times> cell list) option" where
  "newInstanceOf modelType h =
     (case TypeOf modelType of
        None \<Rightarrow> None
      | Some t \<Rightarrow> (case Elem t of None \<Rightarrow> None | Some et \<Rightarrow> New et h))"

definition handleCreate :: "'db GormDB \<Rightarrow> fiber \<Rightarrow> val \<Rightarrow> 'db st \<Rightarrow> 'db ret" where
  "handleCreate p fb modelType s =
     (case s of (c, w) \<Rightarrow>
       (case newInstanceOf modelType (heap w) of
          None \<Rightarrow> None
        | Some (newInstance, h1) \<Rightarrow>
           (case ctx_BodyParser fb c newInstance h1 of
              (Some err, h2) \<Rightarrow>
                Some ((VNil, Some (FiberError StatusBadRequest ''invalid request body'')), (c, w\<lparr>heap := h2\<rparr>))
            | (None, h2) \<Rightarrow>
               (case invoke (CallCreate newInstance) (Create p newInstance) (w\<lparr>heap := h2\<rparr>) of
                  None \<Rightarrow> None
                | Some (Some e, w') \<Rightarrow>
                    Some ((VNil, Some (FiberError StatusInternalServerError ''failed to create record'')), (c, w'))
                | Some (None, w') \<Rightarrow> Some ((newInstance, None), (c, w'))))))"

text \<open>
  The identifier copy of \<^verbatim>\<open>handleUpdate\<close>: \<^verbatim>\<open>reflect.ValueOf(existing).Elem()\<close> and
  \<^verbatim>\<open>FieldByName("ID")\<close> panic unless \<open>existing\<close> is a non-nil pointer to a struct; when
  that struct has a field \<^verbatim>\<open>ID\<close> it is set in the new instance.
\<close>

definition copyID :: "cell list \<Rightarrow> val \<Rightarrow> val \<Rightarrow> cell list option" where
  "copyID h existing newInstance =
     (case deref_struct h existing of
        None \<Rightarrow> None
      | Some existingValue \<Rightarrow>
         (case deref_struct h newInstance of
            None \<Rightarrow> None
          | Some newValue \<Rightarrow>
             (case FieldByName existingValue ''ID'' of
                None \<Rightarrow> Some h
              | Some idField \<Rightarrow>
                 (case SetField newValue ''ID'' idField of
                    None \<Rightarrow> None
                  | Some newValue' \<Rightarrow> Some (store_struct h newInstance newValue')))))"

definition handleUpdate :: "'db GormDB \<Rightarrow> fiber \<Rightarrow> val \<Rightarrow> val \<Rightarrow> 'db st \<Rightarrow> 'db ret" where
  "handleUpdate p fb modelType existing s =
     (case s of (c, w) \<Rightarrow>
       if existing = VNil
       then Some ((VNil, Some (FiberError StatusBadRequest ''record not found'')), s)
       else
       (case newInstanceOf modelType (heap w) of
          None \<Rightarrow> None
        | Some (newInstance, h1) \<Rightarrow>
           (case ctx_BodyParser fb c newInstance h1 of
              (Some err, h2) \<Rightarrow>
                Some ((VNil, Some (FiberError StatusBadRequest ''invalid request body'')), (c, w\<lparr>heap := h2\<rparr>))
            | (None, h2) \<Rightarrow>
               (case copyID h2 existing newInstance of
                  None \<Rightarrow> None
                | Some h3 \<Rightarrow>
                   (case invoke (CallSave newInstance) (Save p newInstance) (w\<lparr>heap := h3\<rparr>) of
                      None \<Rightarrow> None
                    | Some (Some e, w') \<Rightarrow>
                        Some ((VNil, Some (FiberError StatusInternalServerError ''failed to update record'')), (c, w'))
                    | Some (None, w') \<Rightarrow> Some ((newInstance, None), (c, w')))))))"

definition handleDelete :: "'db GormDB \<Rightarrow> val \<Rightarrow> 'db st \<Rightarrow> 'db ret" where
  "handleDelete p data s =
     (case s of (c, w) \<Rightarrow>
       if data = VNil
       then Some ((VNil, Some (FiberError StatusBadRequest ''no data to delete'')), s)
       else
       (case invoke (CallDelete data) (Delete p data) w of
          None \<Rightarrow> None
        | Some (Some e, w') \<Rightarrow>
            Some ((VNil, Some (FiberError StatusInternalServerError ''failed to delete record'')), (c, w'))
        | Some (None, w') \<Rightarrow> Some ((VNil, None), (c, w'))))"

definition Process :: "'db GormDB \<Rightarrow> fiber \<Rightarrow> val \<Rightarrow> 'db st \<Rightarrow> 'db ret" where
  "Process p fb data s =
     (case validateModel (fst s) of
        (_, Some err) \<Rightarrow> Some ((VNil, Some err), s)
      | (modelType, None) \<Rightarrow>
          if Method (fst s) = ''POST'' then handleCreate p fb modelType s
          else if Method (fst s) = ''PUT'' then handleUpdate p fb modelType data s
          else if Method (fst s) = ''DELETE'' then handleDelete p data s
          else Some ((data, None), s))"

section \<open>Resource configuration\<close>

text \<open>
  \<^verbatim>\<open>Operation\<close> is a string type with five constants. Providers and processors are
  interface values: nil, one of the storage-backed defaults, or any other implementation,
  which is handed the context and may do anything with it and with the world. The
  values of the \<^verbatim>\<open>Operations\<close> map are pointers to \<^verbatim>\<open>OperationConfig\<close>, non-nil in every
  configuration the repository builds; an entry of the map is the configuration itself.
\<close>

type_synonym Operation = string

abbreviation OperationCreate :: Operation where "OperationCreate \<equiv> ''create''"
abbreviation OperationUpdate :: Operation where "OperationUpdate \<equiv> ''update''"
abbreviation OperationDelete :: Operation where "OperationDelete \<equiv> ''delete''"
abbreviation OperationGetItem :: Operation where "OperationGetItem \<equiv> ''get_item''"
abbreviation OperationGetList :: Operation where "OperationGetList \<equiv> ''get_list''"

datatype 'db StateProvider =
    NilProvider
  | DefaultProvider "'db GormDB"
  | CustomProvider "'db st \<Rightarrow> 'db ret"

datatype 'db StateProcessor =
    NilProcessor
  | DefaultProcessor "'db GormDB"
  | CustomProcessor "val \<Rightarrow> 'db st \<Rightarrow> 'db ret"

record 'db OperationConfig =
  Provider :: "'db StateProvider"
  Processor :: "'db StateProcessor"
  Enabled :: bool

record 'db ResourceConfig =
  Model :: val
  Operations :: "Operation \<rightharpoonup> 'db OperationConfig"
  Path :: string

record 'db ResourceManager =
  DB :: "'db GormDB"

record 'db Resource =
  manager :: "'db ResourceManager"
  config :: "'db ResourceConfig"

text \<open>A method call on a nil interface value panics.\<close>

fun provider_Provide :: "'db StateProvider \<Rightarrow> 'db st \<Rightarrow> 'db ret" where
  "provider_Provide NilProvider s = None"
| "provider_Provide (DefaultProvider p) s = Provide p s"
| "provider_Provide (CustomProvider f) s = f s"

fun processor_Process :: "fiber \<Rightarrow> 'db StateProcessor \<Rightarrow> val \<Rightarrow> 'db st \<Rightarrow> 'db ret" where
  "processor_Process fb NilProcessor data s = None"
| "processor_Process fb (DefaultProcessor p) data s = Process p fb data s"
| "processor_Process fb (CustomProcessor f) data s = f data s"

section \<open>Routing and dispatch (resource.go)\<close>

text \<open>
  The router collects (method, path, handler) triples in the order of registration; the
  handler of a route is \<^verbatim>\<open>r.handleOperation(op)\<close>, named here by \<open>op\<close>.
\<close>

record route =
  r_method :: string
  r_path :: string
  r_handler :: Operation

definition enabled :: "'db ResourceConfig \<Rightarrow> Operation \<Rightarrow> bool" where
  "enabled cfg op = (case Operations cfg op of None \<Rightarrow> False | Some oc \<Rightarrow> Enabled oc)"

definition RegisterRoutes :: "'db Resource \<Rightarrow> route list \<Rightarrow> route list" where
  "RegisterRoutes r router =
     (let path = Path (config r);
          router = (if enabled (config r) OperationGetList
                    then router @ [\<lparr>r_method = ''GET'', r_path = path, r_handler = OperationGetList\<rparr>]
                    else router);
          router = (if enabled (config r) OperationCreate
                    then router @ [\<lparr>r_method = ''POST'', r_path = path, r_handler = OperationCreate\<rparr>]
                    else router);
          router = (if enabled (config r) OperationGetItem
                    then router @ [\<lparr>r_method = ''GET'', r_path = path @ ''/:id'', r_handler = OperationGetItem\<rparr>]
                    else router);
          router = (if enabled (config r) OperationUpdate
                    then router @ [\<lparr>r_method = ''PUT'', r_path = path @ ''/:id'', r_handler = OperationUpdate\<rparr>]
                    else router);
          router = (if enabled (config r) OperationDelete
                    then router @ [\<lparr>r_method = ''DELETE'', r_path = path @ ''/:id'', r_handler = OperationDelete\<rparr>]
                    else router)
      in router)"

definition handleOperation :: "fiber \<Rightarrow> 'db Resource \<Rightarrow> Operation \<Rightarrow> 'db st \<Rightarrow> (error option \<times> 'db st) option" where
  "handleOperation fb r op s =
     (case s of (c, w) \<Rightarrow>
       (case Operations (config r) op of
          None \<Rightarrow> Some (Some (FiberError StatusNotFound ''Operation not found''), s)
        | Some operationConfig \<Rightarrow>
           if \<not> Enabled operationConfig
           then Some (Some (FiberError StatusNotFound ''Operation not found''), s)
           else
           (case provider_Provide (Provider operationConfig)
                   (ctx_SetLocals c ''model'' (Model (config r)), w) of
              None \<Rightarrow> None
            | Some ((data, Some err), s1) \<Rightarrow> Some (Some err, s1)
            | Some ((data, None), s1) \<Rightarrow>
               (case processor_Process fb (Processor operationConfig) data s1 of
                  None \<Rightarrow> None
                | Some ((result, Some err), s2) \<Rightarrow> Some (Some err, s2)
                | Some ((result, None), (c2, w2)) \<Rightarrow>
                    if result = VNil
                    then (case ctx_SendStatus StatusNoContent c2 of (e, c3) \<Rightarrow> Some (e, (c3, w2)))
                    else (case ctx_JSON fb (heap w2) result c2 of (e, c3) \<Rightarrow> Some (e, (c3, w2)))))))"

section \<open>The resource manager (manager.go)\<close>

text \<open>
  \<^verbatim>\<open>strings.ToLower\<close> on the ASCII letters; type names are Go identifiers, taken to be
  ASCII as all of the repository's are.
\<close>

definition lower_char :: "char \<Rightarrow> char" where
  "lower_char c = (let n = (of_char c :: nat) in if 65 \<le> n \<and> n \<le> 90 then char_of (n + 32) else c)"

definition ToLower :: "string \<Rightarrow> string" where
  "ToLower s = map lower_char s"

definition defaultOperation :: "'db ResourceManager \<Rightarrow> 'db OperationConfig" where
  "defaultOperation rm =
     \<lparr>Provider = DefaultProvider (DB rm), Processor = DefaultProcessor (DB rm), Enabled = True\<rparr>"

text \<open>
  \<^verbatim>\<open>reflect.TypeOf(model)\<close> is nil for the nil interface, and \<^verbatim>\<open>modelType.Kind()\<close> then
  panics (\<open>None\<close>). A customizer is a function on the configuration it is given a
  pointer to; they run in the order given.
\<close>

definition CreateResource ::
  "'db ResourceManager \<Rightarrow> val \<Rightarrow> ('db ResourceConfig \<Rightarrow> 'db ResourceConfig) list \<Rightarrow> 'db Resource option" where
  "CreateResource rm model customConfig =
     (case TypeOf model of
        None \<Rightarrow> None
      | Some t \<Rightarrow>
         (let modelType = (if Kind t = KPtr then (case Elem t of Some et \<Rightarrow> et | None \<Rightarrow> t) else t);
              defaultPath = ''/'' @ ToLower (Name modelType) @ ''s'';
              cfg = \<lparr>Model = model,
                     Operations = [OperationCreate \<mapsto> defaultOperation rm,
                                   OperationUpdate \<mapsto> defaultOperation rm,
                                   OperationGetItem \<mapsto> defaultOperation rm,
                                   OperationGetList \<mapsto> defaultOperation rm,
                                   OperationDelete \<mapsto> defaultOperation rm],
                     Path = defaultPath\<rparr>
          in Some \<lparr>manager = rm, config = foldl (\<lambda>cfg customizer. customizer cfg) cfg customConfig\<rparr>))"

section \<open>The mock storage (testutils/mock\_db.go)\<close>

record MockDB =
  FindByIDError :: "dberr option"
  FindAllError :: "dberr option"
  CreateError :: "dberr option"
  UpdateError :: "dberr option"
  DeleteError :: "dberr option"
  Records :: "val list"

text \<open>
  \<^verbatim>\<open>copyFields(dest, src)\<close>: every field of \<open>src\<close> that \<open>dest\<close> has by name is set in
  \<open>dest\<close>; \<^verbatim>\<open>Set\<close> panics when the types differ.
\<close>

fun copyFields :: "fields \<Rightarrow> fields \<Rightarrow> fields option" where
  "copyFields dest [] = Some dest"
| "copyFields dest ((n, v) # src) =
     (case FieldByName dest n of
        None \<Rightarrow> copyFields dest src
      | Some _ \<Rightarrow> (case SetField dest n v of None \<Rightarrow> None | Some dest' \<Rightarrow> copyFields dest' src))"

definition mock_Create :: "MockDB \<Rightarrow> val \<Rightarrow> cell list \<Rightarrow> (dberr option \<times> cell list \<times> MockDB) option" where
  "mock_Create m v h =
     (if CreateError m \<noteq> None then Some (CreateError m, h, m)
      else (case deref_struct h v of
              None \<Rightarrow> None
            | Some fs \<Rightarrow>
               (case FieldByName fs ''ID'' of
                  Some (FUint _) \<Rightarrow>
                    (case SetField fs ''ID'' (FUint 1) of
                       None \<Rightarrow> None
                     | Some fs' \<Rightarrow> Some (None, store_struct h v fs', m))
                | _ \<Rightarrow> None)))"

definition mock_Save :: "MockDB \<Rightarrow> val \<Rightarrow> cell list \<Rightarrow> (dberr option \<times> cell list \<times> MockDB) option" where
  "mock_Save m v h = (if UpdateError m \<noteq> None then Some (UpdateError m, h, m) else Some (None, h, m))"

definition mock_Delete :: "MockDB \<Rightarrow> val \<Rightarrow> cell list \<Rightarrow> (dberr option \<times> cell list \<times> MockDB) option" where
  "mock_Delete m v h = (if DeleteError m \<noteq> None then Some (DeleteError m, h, m) else Some (None, h, m))"

definition mock_First :: "MockDB \<Rightarrow> val \<Rightarrow> cell list \<Rightarrow> (dberr option \<times> cell list \<times> MockDB) option" where
  "mock_First m dest h =
     (if FindByIDError m \<noteq> None then Some (FindByIDError m, h, m)
      else (case Records m of
              [] \<Rightarrow> Some (None, h, m)
            | record # _ \<Rightarrow>
               (case (deref_struct h dest, deref_struct h record) of
                  (Some dfs, Some sfs) \<Rightarrow>
                    (case copyFields dfs sfs of
                       None \<Rightarrow> None
                     | Some dfs' \<Rightarrow> Some (None, store_struct h dest dfs', m))
                | _ \<Rightarrow> None)))"

text \<open>The loop of \<^verbatim>\<open>Find\<close>: one new element of the slice's element type per record.\<close>

fun mock_collect :: "cell list \<Rightarrow> decl \<Rightarrow> val list \<Rightarrow> fields list \<Rightarrow> fields list option" where
  "mock_collect h d [] acc = Some acc"
| "mock_collect h d (record # rs) acc =
     (case deref_struct h record of
        None \<Rightarrow> None
      | Some sfs \<Rightarrow>
         (case copyFields (zero_fields d) sfs of
            None \<Rightarrow> None
          | Some newElem \<Rightarrow> mock_collect h d rs (acc @ [newElem])))"

definition mock_Find :: "MockDB \<Rightarrow> val \<Rightarrow> cell list \<Rightarrow> (dberr option \<times> cell list \<times> MockDB) option" where
  "mock_Find m dest h =
     (if FindAllError m \<noteq> None then Some (FindAllError m, h, m)
      else (case dest of
              VPtr (TSlice (TStruct n d)) (Some a) \<Rightarrow>
                (case heap_get h a of
                   Some (CSlice xs) \<Rightarrow>
                     (case mock_collect h d (Records m) xs of
                        None \<Rightarrow> None
                      | Some xs' \<Rightarrow> Some (None, h[a := CSlice xs'], m))
                 | _ \<Rightarrow> None)
            | _ \<Rightarrow> None))"

definition MockDB_GormDB :: "MockDB GormDB" where
  "MockDB_GormDB =
     \<lparr>First = (\<lambda>dest conds h m. mock_First m dest h),
      Find = (\<lambda>dest h m. mock_Find m dest h),
      Create = (\<lambda>v h m. mock_Create m v h),
      Save = (\<lambda>v h m. mock_Save m v h),
      Delete = (\<lambda>v h m. mock_Delete m v h)\<rparr>"

section \<open>Properties named by the specification\<close>

text \<open>A non-nil pointer to a struct: what the doc comment of \<^verbatim>\<open>validateModel\<close> asks for.\<close>

fun is_struct_ptr :: "val \<Rightarrow> bool" where
  "is_struct_ptr (VPtr (TStruct n d) (Some a)) = True"
| "is_struct_ptr _ = False"

text \<open>
  The route table of the specification (section 4.2): operation, method and the suffix
  appended to the resource path. \<open>table_routes\<close> reads the table in its order and keeps
  the rows of enabled operations.
\<close>

definition route_table :: "(Operation \<times> string \<times> string) list" where
  "route_table =
     [(OperationGetList, ''GET'', []),
      (OperationCreate, ''POST'', []),
      (OperationGetItem, ''GET'', ''/:id''),
      (OperationUpdate, ''PUT'', ''/:id''),
      (OperationDelete, ''DELETE'', ''/:id'')]"

definition routes_of :: "(Operation \<times> string \<times> string) list \<Rightarrow> 'db ResourceConfig \<Rightarrow> route list" where
  "routes_of tbl cfg =
     map (\<lambda>(op, m, suffix). \<lparr>r_method = m, r_path = Path cfg @ suffix, r_handler = op\<rparr>)
         (filter (\<lambda>(op, m, suffix). enabled cfg op) tbl)"

definition table_routes :: "'db ResourceConfig \<Rightarrow> route list" where
  "table_routes cfg = routes_of route_table cfg"

text \<open>The path invariant of the specification: non-empty and beginning with a slash.\<close>

fun valid_path :: "string \<Rightarrow> bool" where
  "valid_path [] = False"
| "valid_path (x # xs) = (x = CHR ''/'')"

section \<open>The fixtures of the repository's tests\<close>

text \<open>
  \<^verbatim>\<open>TestModel\<close> and the mock storage with its two records, as \<^verbatim>\<open>setupTestProcessor\<close> and
  \<^verbatim>\<open>setupTestProvider\<close> build them. Address 0 holds the model instance \<^verbatim>\<open>&TestModel{}\<close>
  that a resource is created from; addresses 1 and 2 hold the mock's records.
\<close>

definition TestModel :: gotype where
  "TestModel = TStruct ''TestModel'' [(''ID'', FTUint), (''Name'', FTString)]"

definition testHeap :: "cell list" where
  "testHeap = [CStruct [(''ID'', FUint 0), (''Name'', FString [])],
               CStruct [(''ID'', FUint 1), (''Name'', FString ''Test 1'')],
               CStruct [(''ID'', FUint 2), (''Name'', FString ''Test 2'')]]"

definition testMockDB :: MockDB where
  "testMockDB = \<lparr>FindByIDError = None, FindAllError = None, CreateError = None,
                  UpdateError = None, DeleteError = None,
                  Records = [VPtr TestModel (Some 1), VPtr TestModel (Some 2)]\<rparr>"

definition testWorld :: "MockDB world" where
  "testWorld = \<lparr>heap = testHeap, store = testMockDB, calls = []\<rparr>"

definition testRequest :: "string \<Rightarrow> (string \<rightharpoonup> string) \<Rightarrow> string \<Rightarrow> Ctx" where
  "testRequest m ps b =
     \<lparr>Method = m, Params = ps, Body = b, Locals = Map.empty, Status = StatusOK, RespBody = []\<rparr>"

text \<open>
  Stand-ins for the codecs: an encoder that tells an empty collection from anything
  else, and a decoder that knows one request body, which names no identifier.
\<close>

definition testFiber :: fiber where
  "testFiber =
     \<lparr>JSONEncoder = (\<lambda>h v. case deref_slice h v of Some [] \<Rightarrow> Inr ''[]'' | _ \<Rightarrow> Inr ''{}''),
      BodyParser = (\<lambda>b t fs. if b = ''name=y'' then SetField fs ''Name'' (FString ''y'') else None)\<rparr>"

definition testManager :: "MockDB ResourceManager" where
  "testManager = \<lparr>DB = MockDB_GormDB\<rparr>"

definition testResource :: "MockDB Resource" where
  "testResource =
     \<lparr>manager = testManager,
      config = \<lparr>Model = VPtr TestModel (Some 0),
                Operations = [OperationCreate \<mapsto> defaultOperation testManager,
                              OperationUpdate \<mapsto> defaultOperation testManager,
                              OperationGetItem \<mapsto> defaultOperation testManager,
                              OperationGetList \<mapsto> defaultOperation testManager,
                              OperationDelete \<mapsto> defaultOperation testManager],
                Path = ''/testmodels''\<rparr>\<rparr>"

text \<open>A customizer that sets the empty path.\<close>

definition clearPath :: "'db ResourceConfig \<Rightarrow> 'db ResourceConfig" where
  "clearPath cfg = cfg\<lparr>Path := []\<rparr>"

text \<open>
  \<^verbatim>\<open>mockProvider\<close> and \<^verbatim>\<open>mockProcessor\<close> of resource\_test.go return their error when
  they have one and their response otherwise; \<open>testPipeline\<close> is a resource whose only
  operation runs a given provider and processor.
\<close>

definition mockProvider :: "val \<Rightarrow> error option \<Rightarrow> 'db StateProvider" where
  "mockProvider response err =
     CustomProvider (\<lambda>s. case err of Some e \<Rightarrow> Some ((VNil, Some e), s)
                                      | None \<Rightarrow> Some ((response, None), s))"

definition mockProcessor :: "val \<Rightarrow> error option \<Rightarrow> 'db StateProcessor" where
  "mockProcessor response err =
     CustomProcessor (\<lambda>data s. case err of Some e \<Rightarrow> Some ((VNil, Some e), s)
                                            | None \<Rightarrow> Some ((response, None), s))"

definition testPipeline :: "MockDB StateProvider \<Rightarrow> MockDB StateProcessor \<Rightarrow> MockDB Resource" where
  "testPipeline P Q =
     \<lparr>manager = testManager,
      config = \<lparr>Model = VNil,
                Operations = [OperationGetItem \<mapsto> \<lparr>Provider = P, Processor = Q, Enabled = True\<rparr>],
                Path = ''/api/test''\<rparr>\<rparr>"



definition customPath :: "'db ResourceConfig \<Rightarrow> 'db ResourceConfig" where
  "customPath cfg = cfg\<lparr>Path := ''/custom-path''\<rparr>"

text \<open>
  A processor that sets the response status on the context and passes its data on, as
  any implementation of \<^verbatim>\<open>StateProcessor\<close> may through \<^verbatim>\<open>c.Status\<close>.
\<close>

definition statusProcessor :: "nat \<Rightarrow> 'db StateProcessor" where
  "statusProcessor code =
     CustomProcessor (\<lambda>data s. case s of (c, w) \<Rightarrow> Some ((data, None), (c\<lparr>Status := code\<rparr>, w)))"

text \<open>
  What a test reads off an outcome: the response of a handler (returned error, status,
  body), a heap cell after a handler has run, and the path of a created resource.
\<close>

definition response_of :: "(error option \<times> 'db st) option \<Rightarrow> (error option \<times> nat \<times> string) option" where
  "response_of out = map_option (\<lambda>(e, c, w). (e, Status c, RespBody c)) out"

definition cell_after :: "addr \<Rightarrow> (error option \<times> 'db st) option \<Rightarrow> cell option" where
  "cell_after a out = (case out of None \<Rightarrow> None | Some (e, c, w) \<Rightarrow> heap_get (heap w) a)"

definition path_of :: "'db Resource option \<Rightarrow> string option" where
  "path_of res = map_option (\<lambda>r. Path (config r)) res"

section \<open>Validation\<close>

lemma validateModel_struct_ptr:
  "ctx_Locals c ''model'' = VPtr (TStruct n d) (Some a) \<Longrightarrow>
   validateModel c = (VPtr (TStruct n d) (Some a), None)"
  by (simp add: validateModel_def ValueKind_def)

lemma validateModel_other:
  "\<not> is_struct_ptr (ctx_Locals c ''model'') \<Longrightarrow>
   validateModel c = (VNil, Some (FiberError StatusBadRequest
      (if ctx_Locals c ''model'' = VNil then ''model not found in context'' else ''invalid model type'')))"
proof (cases "ctx_Locals c ''model''")
  case (VPtr t ao)
  assume n: "\<not> is_struct_ptr (ctx_Locals c ''model'')"
  show ?thesis
  proof (cases ao)
    case None
    with VPtr show ?thesis by (simp add: validateModel_def ValueKind_def)
  next
    case (Some a)
    with VPtr n show ?thesis by (cases t) (simp_all add: validateModel_def ValueKind_def)
  qed
qed (simp_all add: validateModel_def ValueKind_def)

lemma is_struct_ptr_iff: "is_struct_ptr m \<longleftrightarrow> (\<exists>n d a. m = VPtr (TStruct n d) (Some a))"
  by (cases m rule: is_struct_ptr.cases) simp_all

lemma validateModel_is_struct_ptr:
  "is_struct_ptr (ctx_Locals c ''model'') \<Longrightarrow> validateModel c = (ctx_Locals c ''model'', None)"
  by (auto simp: is_struct_ptr_iff validateModel_struct_ptr)

text \<open>
  C7, as amended. Validation succeeds exactly when the descriptor in the context is a
  non-nil pointer to a struct, and then returns it. In every other case (no descriptor,
  a primitive, a struct passed by value, a nil pointer, a pointer to something else) it
  fails with a 400 error, which \<^verbatim>\<open>Provide\<close> and \<^verbatim>\<open>Process\<close> both return at once, leaving
  context and world as they were.
\<close>

theorem validateModel_pointer_to_struct:
  "(snd (validateModel c) = None \<longleftrightarrow> is_struct_ptr (ctx_Locals c ''model''))
   \<and> (is_struct_ptr (ctx_Locals c ''model'') \<longrightarrow> validateModel c = (ctx_Locals c ''model'', None))
   \<and> (\<not> is_struct_ptr (ctx_Locals c ''model'') \<longrightarrow>
        (\<exists>msg. validateModel c = (VNil, Some (FiberError StatusBadRequest msg))
             \<and> Provide p (c, w) = Some ((VNil, Some (FiberError StatusBadRequest msg)), (c, w))
             \<and> Process q fb data (c, w) = Some ((VNil, Some (FiberError StatusBadRequest msg)), (c, w))))"
proof (cases "is_struct_ptr (ctx_Locals c ''model'')")
  case True
  then show ?thesis by (simp add: validateModel_is_struct_ptr)
next
  case False
  then show ?thesis by (simp add: validateModel_other Provide_def Process_def)
qed

theorem validateModel_pointer_to_struct_witness:
  "is_struct_ptr (ctx_Locals (ctx_SetLocals (testRequest ''GET'' Map.empty []) ''model'' (VPtr TestModel (Some 0))) ''model'')
   \<and> validateModel (ctx_SetLocals (testRequest ''GET'' Map.empty []) ''model'' (VPtr TestModel (Some 0)))
       = (VPtr TestModel (Some 0), None)
   \<and> \<not> is_struct_ptr (ctx_Locals (testRequest ''GET'' Map.empty []) ''model'')
   \<and> (\<exists>msg. Provide MockDB_GormDB (testRequest ''GET'' Map.empty [], testWorld)
              = Some ((VNil, Some (FiberError StatusBadRequest msg)), (testRequest ''GET'' Map.empty [], testWorld)))"
proof -
  let ?good = "ctx_SetLocals (testRequest ''GET'' Map.empty []) ''model'' (VPtr TestModel (Some 0))"
  let ?bad = "testRequest ''GET'' Map.empty []"
  have l: "ctx_Locals ?good ''model'' = VPtr TestModel (Some 0)"
    by (simp add: ctx_Locals_def ctx_SetLocals_def)
  have a: "is_struct_ptr (ctx_Locals ?good ''model'')"
    unfolding l by (simp add: TestModel_def)
  have b: "\<not> is_struct_ptr (ctx_Locals ?bad ''model'')"
    by (simp add: ctx_Locals_def testRequest_def)
  from a validateModel_pointer_to_struct
         [where c = ?good and p = MockDB_GormDB and w = testWorld and q = MockDB_GormDB
            and fb = testFiber and data = VNil]
  have g: "validateModel ?good = (ctx_Locals ?good ''model'', None)"
    by blast
  from b validateModel_pointer_to_struct
         [where c = ?bad and p = MockDB_GormDB and w = testWorld and q = MockDB_GormDB
            and fb = testFiber and data = VNil]
  have f: "\<exists>msg. Provide MockDB_GormDB (?bad, testWorld)
              = Some ((VNil, Some (FiberError StatusBadRequest msg)), (?bad, testWorld))"
    by blast
  from a b g f show ?thesis
    unfolding l by blast
qed

text \<open>
  C7 as the specification states it fails: \<^verbatim>\<open>TestModel{}\<close> passed by value (as the
  manager's test "Creates resource with non-pointer model" does) is a descriptor of
  struct kind, and validation rejects it.
\<close>

theorem validateModel_struct_value_counterexample:
  "ValueKind (VStruct ''TestModel'' [(''ID'', FUint 0), (''Name'', FString [])]) = KStruct
   \<and> validateModel (ctx_SetLocals (testRequest ''GET'' Map.empty []) ''model''
                      (VStruct ''TestModel'' [(''ID'', FUint 0), (''Name'', FString [])]))
       = (VNil, Some (FiberError StatusBadRequest ''invalid model type''))"
  by (simp add: validateModel_def ValueKind_def ctx_Locals_def ctx_SetLocals_def)

section \<open>The pass-through of the default processor\<close>

text \<open>
  C6. With a valid descriptor in the context and a method other than POST, PUT and
  DELETE, \<^verbatim>\<open>Process\<close> returns the data it was given and no error, whatever the storage
  \<open>p\<close> is; context and world (heap, storage state and the log of storage calls) are the
  ones it was called with.
\<close>

theorem Process_passthrough:
  assumes "snd (validateModel c) = None"
    and "Method c \<noteq> ''POST''" and "Method c \<noteq> ''PUT''" and "Method c \<noteq> ''DELETE''"
  shows "Process p fb data (c, w) = Some ((data, None), (c, w))"
  using assms by (cases "validateModel c") (simp add: Process_def)

theorem Process_passthrough_witness:
  "snd (validateModel (ctx_SetLocals (testRequest ''GET'' Map.empty []) ''model'' (VPtr TestModel (Some 0)))) = None
   \<and> Process MockDB_GormDB testFiber (VPtr TestModel (Some 1))
        (ctx_SetLocals (testRequest ''GET'' Map.empty []) ''model'' (VPtr TestModel (Some 0)), testWorld)
      = Some ((VPtr TestModel (Some 1), None),
              (ctx_SetLocals (testRequest ''GET'' Map.empty []) ''model'' (VPtr TestModel (Some 0)), testWorld))"
proof -
  let ?c = "ctx_SetLocals (testRequest ''GET'' Map.empty []) ''model'' (VPtr TestModel (Some 0))"
  have v: "snd (validateModel ?c) = None"
    by (simp add: validateModel_def ValueKind_def ctx_Locals_def ctx_SetLocals_def TestModel_def)
  have m: "Method ?c \<noteq> ''POST''" "Method ?c \<noteq> ''PUT''" "Method ?c \<noteq> ''DELETE''"
    by (simp_all add: ctx_SetLocals_def testRequest_def)
  show ?thesis
    using v Process_passthrough[OF v m, of MockDB_GormDB testFiber "VPtr TestModel (Some 1)" testWorld]
    by simp
qed

section \<open>The default provider\<close>

lemma invoke_Some:
  "f (heap w) (store w) = Some (e, h', d') \<Longrightarrow>
   invoke lg f w = Some (e, \<lparr>heap = h', store = d', calls = calls w @ [lg (heap w)]\<rparr>)"
  by (simp add: invoke_def)

lemma findById_found:
  "First p m [VString i] (heap w) (store w) = Some (None, h', d') \<Longrightarrow>
   findById p i m (c, w) =
     Some ((m, None), (c, \<lparr>heap = h', store = d', calls = calls w @ [CallFirst m [VString i] (heap w)]\<rparr>))"
  by (simp add: findById_def invoke_Some)

lemma findById_not_found:
  "First p m [VString i] (heap w) (store w) = Some (Some ErrRecordNotFound, h', d') \<Longrightarrow>
   findById p i m (c, w) =
     Some ((VNil, Some (FiberError StatusNotFound ''record not found'')),
           (c, \<lparr>heap = h', store = d', calls = calls w @ [CallFirst m [VString i] (heap w)]\<rparr>))"
  by (simp add: findById_def invoke_Some)

lemma findById_failed:
  "First p m [VString i] (heap w) (store w) = Some (Some e, h', d') \<Longrightarrow> e \<noteq> ErrRecordNotFound \<Longrightarrow>
   findById p i m (c, w) =
     Some ((VNil, Some (FiberError StatusInternalServerError ''database error'')),
           (c, \<lparr>heap = h', store = d', calls = calls w @ [CallFirst m [VString i] (heap w)]\<rparr>))"
  by (simp add: findById_def invoke_Some)

lemma findAll_fetched:
  "Find p (VPtr (TSlice et) (Some (length (heap w)))) (heap w @ [CSlice []]) (store w) = Some (None, h', d') \<Longrightarrow>
   findAll p (VPtr et ao) (c, w) =
     Some ((VPtr (TSlice et) (Some (length (heap w))), None),
           (c, \<lparr>heap = h', store = d',
                calls = calls w @ [CallFind (VPtr (TSlice et) (Some (length (heap w)))) (heap w @ [CSlice []])]\<rparr>))"
  by (simp add: findAll_def New_def invoke_def)

lemma findAll_failed:
  "Find p (VPtr (TSlice et) (Some (length (heap w)))) (heap w @ [CSlice []]) (store w) = Some (Some e, h', d') \<Longrightarrow>
   findAll p (VPtr et ao) (c, w) =
     Some ((VNil, Some (FiberError StatusInternalServerError ''failed to fetch records'')),
           (c, \<lparr>heap = h', store = d',
                calls = calls w @ [CallFind (VPtr (TSlice et) (Some (length (heap w)))) (heap w @ [CSlice []])]\<rparr>))"
  by (simp add: findAll_def New_def invoke_def)

lemma Provide_valid:
  "validateModel c = (m, None) \<Longrightarrow>
   Provide p (c, w) = (if ctx_Params c ''id'' \<noteq> [] then findById p (ctx_Params c ''id'') m (c, w)
                       else findAll p m (c, w))"
  by (simp add: Provide_def Let_def)

text \<open>
  C3. Let the context hold a valid descriptor, the pointer \<open>VPtr et (Some a)\<close>. With a
  non-empty \<^verbatim>\<open>id\<close> parameter, \<^verbatim>\<open>Provide\<close> makes one \<^verbatim>\<open>First\<close> call with the descriptor as
  destination: record-not-found gives a 404 error, any other storage error a 500 error,
  success the descriptor, which now refers to what the storage wrote. With no \<^verbatim>\<open>id\<close>
  parameter it makes one \<^verbatim>\<open>Find\<close> call on a new, empty slice of the element type: a
  storage error gives a 500 error, success the pointer to that slice, whose content and
  order are the ones the storage left in the heap \<open>h'\<close>.
\<close>

theorem Provide_lookup_or_fetch:
  assumes valid: "validateModel c = (VPtr et (Some a), None)"
  shows "(ctx_Params c ''id'' \<noteq> [] \<longrightarrow>
           (\<forall>e h' d'. First p (VPtr et (Some a)) [VString (ctx_Params c ''id'')] (heap w) (store w) = Some (e, h', d') \<longrightarrow>
              Provide p (c, w) =
                Some ((case e of
                         None \<Rightarrow> (VPtr et (Some a), None)
                       | Some x \<Rightarrow> (VNil, Some (if x = ErrRecordNotFound
                                                  then FiberError StatusNotFound ''record not found''
                                                  else FiberError StatusInternalServerError ''database error''))),
                      (c, \<lparr>heap = h', store = d',
                           calls = calls w @ [CallFirst (VPtr et (Some a)) [VString (ctx_Params c ''id'')] (heap w)]\<rparr>))))
       \<and> (ctx_Params c ''id'' = [] \<longrightarrow>
           (\<forall>e h' d'. Find p (VPtr (TSlice et) (Some (length (heap w)))) (heap w @ [CSlice []]) (store w) = Some (e, h', d') \<longrightarrow>
              Provide p (c, w) =
                Some ((case e of
                         None \<Rightarrow> (VPtr (TSlice et) (Some (length (heap w))), None)
                       | Some x \<Rightarrow> (VNil, Some (FiberError StatusInternalServerError ''failed to fetch records''))),
                      (c, \<lparr>heap = h', store = d',
                           calls = calls w @ [CallFind (VPtr (TSlice et) (Some (length (heap w)))) (heap w @ [CSlice []])]\<rparr>))))"
proof (intro conjI impI allI)
  fix e h' d'
  assume "ctx_Params c ''id'' \<noteq> []"
    and "First p (VPtr et (Some a)) [VString (ctx_Params c ''id'')] (heap w) (store w) = Some (e, h', d')"
  then show "Provide p (c, w) =
                Some ((case e of
                         None \<Rightarrow> (VPtr et (Some a), None)
                       | Some x \<Rightarrow> (VNil, Some (if x = ErrRecordNotFound
                                                  then FiberError StatusNotFound ''record not found''
                                                  else FiberError StatusInternalServerError ''database error''))),
                      (c, \<lparr>heap = h', store = d',
                           calls = calls w @ [CallFirst (VPtr et (Some a)) [VString (ctx_Params c ''id'')] (heap w)]\<rparr>))"
    using valid
    by (cases e) (simp_all add: Provide_valid findById_found findById_not_found findById_failed)
next
  fix e h' d'
  assume "ctx_Params c ''id'' = []"
    and "Find p (VPtr (TSlice et) (Some (length (heap w)))) (heap w @ [CSlice []]) (store w) = Some (e, h', d')"
  then show "Provide p (c, w) =
                Some ((case e of
                         None \<Rightarrow> (VPtr (TSlice et) (Some (length (heap w))), None)
                       | Some x \<Rightarrow> (VNil, Some (FiberError StatusInternalServerError ''failed to fetch records''))),
                      (c, \<lparr>heap = h', store = d',
                           calls = calls w @ [CallFind (VPtr (TSlice et) (Some (length (heap w)))) (heap w @ [CSlice []])]\<rparr>))"
    using valid
    by (cases e) (simp_all add: Provide_valid findAll_fetched findAll_failed)
qed

theorem Provide_lookup_or_fetch_witness:
  "validateModel (ctx_SetLocals (testRequest ''GET'' [''id'' \<mapsto> ''1''] []) ''model'' (VPtr TestModel (Some 0)))
     = (VPtr TestModel (Some 0), None)
   \<and> ctx_Params (ctx_SetLocals (testRequest ''GET'' [''id'' \<mapsto> ''1''] []) ''model'' (VPtr TestModel (Some 0))) ''id'' = ''1''
   \<and> First MockDB_GormDB (VPtr TestModel (Some 0)) [VString ''1''] (heap testWorld) (store testWorld)
       = Some (None, testHeap[0 := CStruct [(''ID'', FUint 1), (''Name'', FString ''Test 1'')]], testMockDB)
   \<and> Provide MockDB_GormDB
        (ctx_SetLocals (testRequest ''GET'' [''id'' \<mapsto> ''1''] []) ''model'' (VPtr TestModel (Some 0)), testWorld)
      = Some ((VPtr TestModel (Some 0), None),
              (ctx_SetLocals (testRequest ''GET'' [''id'' \<mapsto> ''1''] []) ''model'' (VPtr TestModel (Some 0)),
               \<lparr>heap = testHeap[0 := CStruct [(''ID'', FUint 1), (''Name'', FString ''Test 1'')]],
                store = testMockDB,
                calls = [CallFirst (VPtr TestModel (Some 0)) [VString ''1''] testHeap]\<rparr>))"
proof -
  let ?c = "ctx_SetLocals (testRequest ''GET'' [''id'' \<mapsto> ''1''] []) ''model'' (VPtr TestModel (Some 0))"
  have v: "validateModel ?c = (VPtr TestModel (Some 0), None)"
    by (simp add: validateModel_def ValueKind_def ctx_Locals_def ctx_SetLocals_def TestModel_def)
  have i: "ctx_Params ?c ''id'' = ''1''"
    by (simp add: ctx_Params_def ctx_SetLocals_def testRequest_def)
  have f: "First MockDB_GormDB (VPtr TestModel (Some 0)) [VString ''1''] (heap testWorld) (store testWorld)
       = Some (None, testHeap[0 := CStruct [(''ID'', FUint 1), (''Name'', FString ''Test 1'')]], testMockDB)"
    by code_simp
  have w: "heap testWorld = testHeap" "calls testWorld = []"
    by (simp_all add: testWorld_def)
  from Provide_lookup_or_fetch[OF v, of MockDB_GormDB testWorld] i f
  have "Provide MockDB_GormDB (?c, testWorld)
      = Some ((VPtr TestModel (Some 0), None),
              (?c, \<lparr>heap = testHeap[0 := CStruct [(''ID'', FUint 1), (''Name'', FString ''Test 1'')]],
                    store = testMockDB,
                    calls = calls testWorld @ [CallFirst (VPtr TestModel (Some 0)) [VString ''1''] (heap testWorld)]\<rparr>))"
    by simp
  with v i f show ?thesis
    by (simp add: w)
qed

section \<open>Dispatch\<close>

text \<open>
  The storage-backed provider and processor hand the context back as they received it:
  they write neither the status nor the body of the response.
\<close>

lemma findById_ctx: "findById p i m (c, w) = Some (r, (c', w')) \<Longrightarrow> c' = c"
  by (auto simp: findById_def split: option.splits prod.splits if_splits)

lemma findAll_ctx: "findAll p m (c, w) = Some (r, (c', w')) \<Longrightarrow> c' = c"
  by (auto simp: findAll_def split: option.splits prod.splits if_splits)

lemma Provide_ctx: "Provide p (c, w) = Some (r, (c', w')) \<Longrightarrow> c' = c"
  by (auto simp: Provide_def Let_def split: option.splits prod.splits if_splits dest: findById_ctx findAll_ctx)

lemma handleCreate_ctx: "handleCreate p fb m (c, w) = Some (r, (c', w')) \<Longrightarrow> c' = c"
  by (auto simp: handleCreate_def split: option.splits prod.splits if_splits)

lemma handleUpdate_ctx: "handleUpdate p fb m x (c, w) = Some (r, (c', w')) \<Longrightarrow> c' = c"
  by (auto simp: handleUpdate_def split: option.splits prod.splits if_splits)

lemma handleDelete_ctx: "handleDelete p x (c, w) = Some (r, (c', w')) \<Longrightarrow> c' = c"
  by (auto simp: handleDelete_def split: option.splits prod.splits if_splits)

lemma Process_ctx: "Process p fb x (c, w) = Some (r, (c', w')) \<Longrightarrow> c' = c"
  by (auto simp: Process_def split: option.splits prod.splits if_splits
           dest: handleCreate_ctx handleUpdate_ctx handleDelete_ctx)

lemma default_stages_status:
  assumes "provider_Provide (DefaultProvider p) (ctx_SetLocals c ''model'' m, w) = Some ((data, None), s1)"
    and "processor_Process fb (DefaultProcessor q) data s1 = Some ((result, None), (c2, w2))"
  shows "Status c2 = Status c"
proof -
  obtain c1 w1 where s1: "s1 = (c1, w1)" by (cases s1)
  from assms(1) s1 have "c1 = ctx_SetLocals c ''model'' m"
    by (auto dest: Provide_ctx)
  moreover from assms(2) s1 have "c2 = c1"
    by (auto dest: Process_ctx)
  ultimately show ?thesis by (simp add: ctx_SetLocals_def)
qed

text \<open>
  C1, as amended. Let \<open>op\<close> be configured and enabled with provider \<open>P\<close> and processor
  \<open>Q\<close>; the handler calls \<open>P\<close> on the context with the model attached. (1) When \<open>P\<close>
  returns an error, the handler returns that very error, in the state \<open>P\<close> left: \<open>Q\<close> does
  not occur in the result, so it is not invoked. (2) When \<open>Q\<close> returns an error, the
  handler returns that very error. (3) When \<open>Q\<close> returns the nil interface and no error,
  the response has status 204 and an empty body. (4) Otherwise the encoding of the
  result is the response body, and the handler sets no status: the response carries the
  status \<open>Status c2\<close> of the context as \<open>Q\<close> left it. That is the success status 200 when
  the context has it then; with the storage-backed provider and processor it is the
  status the context had when the handler was called.
\<close>

theorem handleOperation_pipeline:
  assumes cfg: "Operations (config r) op = Some \<lparr>Provider = P, Processor = Q, Enabled = True\<rparr>"
  shows "(\<forall>data err s1.
            provider_Provide P (ctx_SetLocals c ''model'' (Model (config r)), w) = Some ((data, Some err), s1) \<longrightarrow>
            handleOperation fb r op (c, w) = Some (Some err, s1))
       \<and> (\<forall>data s1 result err s2.
            provider_Provide P (ctx_SetLocals c ''model'' (Model (config r)), w) = Some ((data, None), s1) \<longrightarrow>
            processor_Process fb Q data s1 = Some ((result, Some err), s2) \<longrightarrow>
            handleOperation fb r op (c, w) = Some (Some err, s2))
       \<and> (\<forall>data s1 c2 w2.
            provider_Provide P (ctx_SetLocals c ''model'' (Model (config r)), w) = Some ((data, None), s1) \<longrightarrow>
            processor_Process fb Q data s1 = Some ((VNil, None), (c2, w2)) \<longrightarrow>
            handleOperation fb r op (c, w) = Some (None, (c2\<lparr>Status := StatusNoContent, RespBody := []\<rparr>, w2)))
       \<and> (\<forall>data s1 result c2 w2 raw.
            provider_Provide P (ctx_SetLocals c ''model'' (Model (config r)), w) = Some ((data, None), s1) \<longrightarrow>
            processor_Process fb Q data s1 = Some ((result, None), (c2, w2)) \<longrightarrow>
            result \<noteq> VNil \<longrightarrow>
            JSONEncoder fb (heap w2) result = Inr raw \<longrightarrow>
            handleOperation fb r op (c, w) = Some (None, (c2\<lparr>RespBody := raw\<rparr>, w2))
            \<and> Status (c2\<lparr>RespBody := raw\<rparr>) = Status c2
            \<and> (Status c2 = StatusOK \<longrightarrow> Status (c2\<lparr>RespBody := raw\<rparr>) = StatusOK)
            \<and> (\<forall>p q. P = DefaultProvider p \<longrightarrow> Q = DefaultProcessor q \<longrightarrow> Status c2 = Status c))"
proof -
  have main: "(\<forall>data err s1.
            provider_Provide P (ctx_SetLocals c ''model'' (Model (config r)), w) = Some ((data, Some err), s1) \<longrightarrow>
            handleOperation fb r op (c, w) = Some (Some err, s1))
       \<and> (\<forall>data s1 result err s2.
            provider_Provide P (ctx_SetLocals c ''model'' (Model (config r)), w) = Some ((data, None), s1) \<longrightarrow>
            processor_Process fb Q data s1 = Some ((result, Some err), s2) \<longrightarrow>
            handleOperation fb r op (c, w) = Some (Some err, s2))
       \<and> (\<forall>data s1 c2 w2.
            provider_Provide P (ctx_SetLocals c ''model'' (Model (config r)), w) = Some ((data, None), s1) \<longrightarrow>
            processor_Process fb Q data s1 = Some ((VNil, None), (c2, w2)) \<longrightarrow>
            handleOperation fb r op (c, w) = Some (None, (c2\<lparr>Status := StatusNoContent, RespBody := []\<rparr>, w2)))
       \<and> (\<forall>data s1 result c2 w2 raw.
            provider_Provide P (ctx_SetLocals c ''model'' (Model (config r)), w) = Some ((data, None), s1) \<longrightarrow>
            processor_Process fb Q data s1 = Some ((result, None), (c2, w2)) \<longrightarrow>
            result \<noteq> VNil \<longrightarrow>
            JSONEncoder fb (heap w2) result = Inr raw \<longrightarrow>
            handleOperation fb r op (c, w) = Some (None, (c2\<lparr>RespBody := raw\<rparr>, w2)))"
    using cfg by (simp add: handleOperation_def ctx_SendStatus_def ctx_JSON_def)
  have d: "\<forall>data s1 result c2 w2.
            provider_Provide P (ctx_SetLocals c ''model'' (Model (config r)), w) = Some ((data, None), s1) \<longrightarrow>
            processor_Process fb Q data s1 = Some ((result, None), (c2, w2)) \<longrightarrow>
            (\<forall>p q. P = DefaultProvider p \<longrightarrow> Q = DefaultProcessor q \<longrightarrow> Status c2 = Status c)"
    using default_stages_status by blast
  note m1 = main[THEN conjunct1]
    and m2 = main[THEN conjunct2, THEN conjunct1]
    and m3 = main[THEN conjunct2, THEN conjunct2, THEN conjunct1]
    and m4 = main[THEN conjunct2, THEN conjunct2, THEN conjunct2]
  have c4: "\<forall>data s1 result c2 w2 raw.
            provider_Provide P (ctx_SetLocals c ''model'' (Model (config r)), w) = Some ((data, None), s1) \<longrightarrow>
            processor_Process fb Q data s1 = Some ((result, None), (c2, w2)) \<longrightarrow>
            result \<noteq> VNil \<longrightarrow>
            JSONEncoder fb (heap w2) result = Inr raw \<longrightarrow>
            handleOperation fb r op (c, w) = Some (None, (c2\<lparr>RespBody := raw\<rparr>, w2))
            \<and> Status (c2\<lparr>RespBody := raw\<rparr>) = Status c2
            \<and> (Status c2 = StatusOK \<longrightarrow> Status (c2\<lparr>RespBody := raw\<rparr>) = StatusOK)
            \<and> (\<forall>p q. P = DefaultProvider p \<longrightarrow> Q = DefaultProcessor q \<longrightarrow> Status c2 = Status c)"
  proof (intro allI impI conjI)
    fix data s1 result c2 w2 raw
    assume a: "provider_Provide P (ctx_SetLocals c ''model'' (Model (config r)), w) = Some ((data, None), s1)"
      and b: "processor_Process fb Q data s1 = Some ((result, None), (c2, w2))"
      and n: "result \<noteq> VNil"
      and e: "JSONEncoder fb (heap w2) result = Inr raw"
    show "handleOperation fb r op (c, w) = Some (None, (c2\<lparr>RespBody := raw\<rparr>, w2))"
      by (rule m4[rule_format, OF a b n e])
  next
    fix c2 :: Ctx and raw
    show "Status (c2\<lparr>RespBody := raw\<rparr>) = Status c2"
      by simp
  next
    fix c2 :: Ctx and raw
    assume "Status c2 = StatusOK"
    then show "Status (c2\<lparr>RespBody := raw\<rparr>) = StatusOK"
      by simp
  next
    fix data s1 result c2 w2 p q
    assume a: "provider_Provide P (ctx_SetLocals c ''model'' (Model (config r)), w) = Some ((data, None), s1)"
      and b: "processor_Process fb Q data s1 = Some ((result, None), (c2, w2))"
      and p: "P = DefaultProvider p" and q: "Q = DefaultProcessor q"
    show "Status c2 = Status c"
      by (rule d[rule_format, OF a b p q])
  qed
  show ?thesis
    by (rule conjI[OF m1 conjI[OF m2 conjI[OF m3 c4]]])
qed

theorem handleOperation_pipeline_witness:
  "handleOperation testFiber
      (testPipeline (mockProvider VNil (Some (FiberError StatusNotFound ''record not found''))) NilProcessor)
      OperationGetItem (testRequest ''GET'' [''id'' \<mapsto> ''1''] [], testWorld)
     = Some (Some (FiberError StatusNotFound ''record not found''),
             (ctx_SetLocals (testRequest ''GET'' [''id'' \<mapsto> ''1''] []) ''model'' VNil, testWorld))
   \<and> handleOperation testFiber
      (testPipeline (mockProvider (VPtr TestModel (Some 1)) None)
                    (mockProcessor VNil (Some (FiberError StatusInternalServerError ''failed to update record''))))
      OperationGetItem (testRequest ''GET'' [''id'' \<mapsto> ''1''] [], testWorld)
     = Some (Some (FiberError StatusInternalServerError ''failed to update record''),
             (ctx_SetLocals (testRequest ''GET'' [''id'' \<mapsto> ''1''] []) ''model'' VNil, testWorld))
   \<and> handleOperation testFiber
      (testPipeline (mockProvider (VPtr TestModel (Some 1)) None) (mockProcessor VNil None))
      OperationGetItem (testRequest ''GET'' [''id'' \<mapsto> ''1''] [], testWorld)
     = Some (None,
             ((ctx_SetLocals (testRequest ''GET'' [''id'' \<mapsto> ''1''] []) ''model'' VNil)
                \<lparr>Status := StatusNoContent, RespBody := []\<rparr>, testWorld))
   \<and> handleOperation testFiber
      (testPipeline (mockProvider (VPtr TestModel (Some 1)) None) (mockProcessor (VPtr TestModel (Some 1)) None))
      OperationGetItem (testRequest ''GET'' [''id'' \<mapsto> ''1''] [], testWorld)
     = Some (None,
             ((ctx_SetLocals (testRequest ''GET'' [''id'' \<mapsto> ''1''] []) ''model'' VNil)
                \<lparr>RespBody := ''{}''\<rparr>, testWorld))
   \<and> Status ((ctx_SetLocals (testRequest ''GET'' [''id'' \<mapsto> ''1''] []) ''model'' VNil)\<lparr>RespBody := ''{}''\<rparr>)
     = StatusOK"
proof -
  let ?c = "testRequest ''GET'' [''id'' \<mapsto> ''1''] []"
  let ?c1 = "ctx_SetLocals ?c ''model'' VNil"
  let ?data = "VPtr TestModel (Some 1)"
  let ?nf = "FiberError StatusNotFound ''record not found''"
  let ?ise = "FiberError StatusInternalServerError ''failed to update record''"
  have cfg: "Operations (config (testPipeline P Q)) OperationGetItem
               = Some \<lparr>Provider = P, Processor = Q, Enabled = True\<rparr>" for P Q
    by (simp add: testPipeline_def)
  have model: "Model (config (testPipeline P Q)) = VNil" for P Q
    by (simp add: testPipeline_def)
  have pe: "provider_Provide (mockProvider VNil (Some ?nf)) (?c1, testWorld)
              = Some ((VNil, Some ?nf), (?c1, testWorld))"
    by (simp add: mockProvider_def)
  have po: "provider_Provide (mockProvider ?data None) (?c1, testWorld)
              = Some ((?data, None), (?c1, testWorld))"
    by (simp add: mockProvider_def)
  have qe: "processor_Process testFiber (mockProcessor VNil (Some ?ise)) ?data (?c1, testWorld)
              = Some ((VNil, Some ?ise), (?c1, testWorld))"
    by (simp add: mockProcessor_def)
  have qn: "processor_Process testFiber (mockProcessor VNil None) ?data (?c1, testWorld)
              = Some ((VNil, None), (?c1, testWorld))"
    by (simp add: mockProcessor_def)
  have qo: "processor_Process testFiber (mockProcessor ?data None) ?data (?c1, testWorld)
              = Some ((?data, None), (?c1, testWorld))"
    by (simp add: mockProcessor_def)
  have nn: "?data \<noteq> VNil"
    by simp
  have enc: "JSONEncoder testFiber (heap testWorld) ?data = Inr ''{}''"
    by (simp add: testFiber_def TestModel_def)
  have ok: "Status ?c1 = StatusOK"
    by (simp add: ctx_SetLocals_def testRequest_def)
  note t1 = handleOperation_pipeline
            [where r = "testPipeline (mockProvider VNil (Some ?nf)) NilProcessor" and op = OperationGetItem
               and P = "mockProvider VNil (Some ?nf)" and Q = NilProcessor
               and c = ?c and w = testWorld and fb = testFiber, OF cfg, unfolded model]
  note t2 = handleOperation_pipeline
            [where r = "testPipeline (mockProvider ?data None) (mockProcessor VNil (Some ?ise))"
               and op = OperationGetItem
               and P = "mockProvider ?data None" and Q = "mockProcessor VNil (Some ?ise)"
               and c = ?c and w = testWorld and fb = testFiber, OF cfg, unfolded model]
  note t3 = handleOperation_pipeline
            [where r = "testPipeline (mockProvider ?data None) (mockProcessor VNil None)"
               and op = OperationGetItem
               and P = "mockProvider ?data None" and Q = "mockProcessor VNil None"
               and c = ?c and w = testWorld and fb = testFiber, OF cfg, unfolded model]
  note t4 = handleOperation_pipeline
            [where r = "testPipeline (mockProvider ?data None) (mockProcessor ?data None)"
               and op = OperationGetItem
               and P = "mockProvider ?data None" and Q = "mockProcessor ?data None"
               and c = ?c and w = testWorld and fb = testFiber, OF cfg, unfolded model]
  have 1: "handleOperation testFiber (testPipeline (mockProvider VNil (Some ?nf)) NilProcessor)
             OperationGetItem (?c, testWorld) = Some (Some ?nf, (?c1, testWorld))"
    by (rule t1[THEN conjunct1, rule_format, OF pe])
  have 2: "handleOperation testFiber (testPipeline (mockProvider ?data None) (mockProcessor VNil (Some ?ise)))
             OperationGetItem (?c, testWorld) = Some (Some ?ise, (?c1, testWorld))"
    by (rule t2[THEN conjunct2, THEN conjunct1, rule_format, OF po qe])
  have 3: "handleOperation testFiber (testPipeline (mockProvider ?data None) (mockProcessor VNil None))
             OperationGetItem (?c, testWorld)
             = Some (None, (?c1\<lparr>Status := StatusNoContent, RespBody := []\<rparr>, testWorld))"
    by (rule t3[THEN conjunct2, THEN conjunct2, THEN conjunct1, rule_format, OF po qn])
  note t4' = t4[THEN conjunct2, THEN conjunct2, THEN conjunct2, rule_format, OF po qo nn enc]
  have 4: "handleOperation testFiber (testPipeline (mockProvider ?data None) (mockProcessor ?data None))
             OperationGetItem (?c, testWorld)
             = Some (None, (?c1\<lparr>RespBody := ''{}''\<rparr>, testWorld))"
    by (rule t4'[THEN conjunct1])
  have 5: "Status (?c1\<lparr>RespBody := ''{}''\<rparr>) = StatusOK"
    by (rule t4'[THEN conjunct2, THEN conjunct2, THEN conjunct1, rule_format, OF ok])
  show ?thesis
    by (rule conjI[OF 1 conjI[OF 2 conjI[OF 3 conjI[OF 4 5]]]])
qed

text \<open>
  C1 as the specification states it fails in its last clause. The handler answers a
  non-nil result through \<^verbatim>\<open>c.JSON\<close>, which writes the body and sets no status: with a
  processor that has set status 500 and returns its data without error, the response is
  the JSON body with status 500, not a success status.
\<close>

theorem handleOperation_status_counterexample:
  "response_of
     (handleOperation testFiber
        (testPipeline (mockProvider (VPtr TestModel (Some 1)) None) (statusProcessor StatusInternalServerError))
        OperationGetItem (testRequest ''GET'' [''id'' \<mapsto> ''1''] [], testWorld))
   = Some (None, StatusInternalServerError, ''{}'')"
  by code_simp

section \<open>Update keeps the identifier\<close>

lemma heap_get_append_new: "heap_get (h @ [x]) (length h) = Some x"
  by (simp add: heap_get_def)


lemma deref_struct_append:
  "deref_struct h p = Some fs \<Longrightarrow> deref_struct (h @ xs) p = Some fs"
  by (cases "(h, p)" rule: deref_struct.cases)
     (auto simp: heap_get_def nth_append split: if_splits option.splits cell.splits)

lemma map_of_decl_of: "map_of (decl_of fs) k = map_option ftype_of (map_of fs k)"
  by (induction fs) (auto simp: decl_of_def)

lemma SetField_present:
  "map_of fs k = Some u \<Longrightarrow> ftype_of u = ftype_of v \<Longrightarrow>
   \<exists>fs'. SetField fs k v = Some fs' \<and> map_of fs' k = Some v
         \<and> (\<forall>j. j \<noteq> k \<longrightarrow> map_of fs' j = map_of fs j)"
proof (induction fs)
  case Nil
  then show ?case by simp
next
  case (Cons x fs)
  obtain m w where x: "x = (m, w)" by (cases x)
  show ?case
  proof (cases "m = k")
    case True
    with Cons.prems x show ?thesis by simp
  next
    case False
    with Cons.prems x have "map_of fs k = Some u" by simp
    from Cons.IH[OF this Cons.prems(2)] obtain fs' where
      "SetField fs k v = Some fs'" "map_of fs' k = Some v" "\<forall>j. j \<noteq> k \<longrightarrow> map_of fs' j = map_of fs j"
      by blast
    with False x show ?thesis by simp
  qed
qed

lemma same_decl_field:
  assumes "decl_of pfs = decl_of efs" and "map_of efs k = Some v"
  shows "\<exists>u. map_of pfs k = Some u \<and> ftype_of u = ftype_of v"
proof -
  have "map_option ftype_of (map_of pfs k) = map_option ftype_of (map_of efs k)"
    using assms(1) map_of_decl_of[of pfs k] map_of_decl_of[of efs k] by simp
  with assms(2) show ?thesis by (cases "map_of pfs k") auto
qed

lemma newInstanceOf_struct_ptr:
  "newInstanceOf (VPtr (TStruct n d) ao) h =
     Some (VPtr (TStruct n d) (Some (length h)), h @ [CStruct (zero_fields d)])"
  by (simp add: newInstanceOf_def New_def)

lemma ctx_BodyParser_new:
  "BodyParser fb (Body c) (TStruct n d) fs0 = Some pfs \<Longrightarrow>
   ctx_BodyParser fb c (VPtr (TStruct n d) (Some (length h))) (h @ [CStruct fs0]) = (None, h @ [CStruct pfs])"
  by (simp add: ctx_BodyParser_def heap_get_append_new store_struct_def)

lemma copyID_new:
  assumes "deref_struct h existing = Some efs" and "FieldByName efs ''ID'' = Some v"
    and "SetField pfs ''ID'' v = Some inst"
  shows "copyID (h @ [CStruct pfs]) existing (VPtr (TStruct n d) (Some (length h))) = Some (h @ [CStruct inst])"
  using assms deref_struct_append[OF assms(1), of "[CStruct pfs]"]
  by (simp add: copyID_def heap_get_append_new store_struct_def)

lemma deref_struct_not_nil: "deref_struct h p = Some fs \<Longrightarrow> p \<noteq> VNil"
  by auto

lemma handleUpdate_nil:
  "handleUpdate p fb m VNil (c, w) =
     Some ((VNil, Some (FiberError StatusBadRequest ''record not found'')), (c, w))"
  by (simp add: handleUpdate_def)

lemma handleUpdate_saved:
  assumes "deref_struct (heap w) existing = Some efs" and "FieldByName efs ''ID'' = Some v"
    and "BodyParser fb (Body c) (TStruct n d) (zero_fields d) = Some pfs"
    and "SetField pfs ''ID'' v = Some inst"
  shows "handleUpdate p fb (VPtr (TStruct n d) ao) existing (c, w) =
     (case Save p (VPtr (TStruct n d) (Some (length (heap w)))) (heap w @ [CStruct inst]) (store w) of
        None \<Rightarrow> None
      | Some (e, h', d') \<Rightarrow>
          Some ((case e of
                   None \<Rightarrow> (VPtr (TStruct n d) (Some (length (heap w))), None)
                 | Some x \<Rightarrow> (VNil, Some (FiberError StatusInternalServerError ''failed to update record''))),
                (c, \<lparr>heap = h', store = d',
                     calls = calls w @ [CallSave (VPtr (TStruct n d) (Some (length (heap w)))) (heap w @ [CStruct inst])]\<rparr>)))"
  using deref_struct_not_nil[OF assms(1)] copyID_new[OF assms(1,2,4), of n d] ctx_BodyParser_new[OF assms(3), of "heap w"]
  by (simp add: handleUpdate_def newInstanceOf_struct_ptr invoke_def split: option.splits)

text \<open>
  C2. Let the descriptor be valid, the method PUT, \<open>existing\<close> a non-nil pointer to a
  record \<open>efs\<close> of the model's type with identifier \<open>v\<close>, and let the body decode to
  \<open>pfs\<close>, any value of the model's type, whatever identifier it holds. Then the instance
  \<open>inst\<close> that \<^verbatim>\<open>Save\<close> is handed is \<open>pfs\<close> with the identifier set to \<open>v\<close> and every other
  field as decoded; \<^verbatim>\<open>Save\<close> is the one storage call; on success the pointer handed to
  \<^verbatim>\<open>Save\<close> is what \<^verbatim>\<open>Process\<close> returns, and on a storage error a 500 error. With the nil
  interface for \<open>existing\<close>, \<^verbatim>\<open>Process\<close> fails with the 400 error "record not found" and
  leaves the world, hence the log of storage calls, as it was.
\<close>

theorem handleUpdate_keeps_identifier:
  assumes valid: "validateModel c = (VPtr (TStruct n d) (Some a), None)"
    and put: "Method c = ''PUT''"
    and existing: "deref_struct (heap w) existing = Some efs"
    and etype: "decl_of efs = d"
    and ident: "FieldByName efs ''ID'' = Some v"
    and parsed: "BodyParser fb (Body c) (TStruct n d) (zero_fields d) = Some pfs"
    and ptype: "decl_of pfs = d"
  shows "\<exists>inst.
           SetField pfs ''ID'' v = Some inst
         \<and> FieldByName inst ''ID'' = Some v
         \<and> (\<forall>k. k \<noteq> ''ID'' \<longrightarrow> FieldByName inst k = FieldByName pfs k)
         \<and> Process p fb existing (c, w) =
             (case Save p (VPtr (TStruct n d) (Some (length (heap w)))) (heap w @ [CStruct inst]) (store w) of
                None \<Rightarrow> None
              | Some (e, h', d') \<Rightarrow>
                  Some ((case e of
                           None \<Rightarrow> (VPtr (TStruct n d) (Some (length (heap w))), None)
                         | Some x \<Rightarrow> (VNil, Some (FiberError StatusInternalServerError ''failed to update record''))),
                        (c, \<lparr>heap = h', store = d',
                             calls = calls w @ [CallSave (VPtr (TStruct n d) (Some (length (heap w)))) (heap w @ [CStruct inst])]\<rparr>)))
         \<and> Process p fb VNil (c, w) =
             Some ((VNil, Some (FiberError StatusBadRequest ''record not found'')), (c, w))"
proof -
  from ident have i: "map_of efs ''ID'' = Some v" by (simp add: FieldByName_def)
  from etype ptype have "decl_of pfs = decl_of efs" by simp
  from same_decl_field[OF this i] obtain u where u: "map_of pfs ''ID'' = Some u" "ftype_of u = ftype_of v"
    by blast
  from SetField_present[OF u] obtain inst where inst: "SetField pfs ''ID'' v = Some inst"
    "map_of inst ''ID'' = Some v" "\<forall>j. j \<noteq> ''ID'' \<longrightarrow> map_of inst j = map_of pfs j"
    by blast
  have upd: "Process p fb existing (c, w) = handleUpdate p fb (VPtr (TStruct n d) (Some a)) existing (c, w)"
    using valid put by (simp add: Process_def)
  have nil: "Process p fb VNil (c, w) = handleUpdate p fb (VPtr (TStruct n d) (Some a)) VNil (c, w)"
    using valid put by (simp add: Process_def)
  show ?thesis
    using inst upd nil handleUpdate_saved[OF existing ident parsed inst(1), of p "Some a"] handleUpdate_nil[of p fb _ c w]
    by (intro exI[of _ inst]) (simp add: FieldByName_def)
qed

theorem handleUpdate_keeps_identifier_witness:
  "validateModel (ctx_SetLocals (testRequest ''PUT'' [''id'' \<mapsto> ''1''] ''name=y'') ''model'' (VPtr TestModel (Some 0)))
     = (VPtr TestModel (Some 0), None)
   \<and> deref_struct (heap testWorld) (VPtr TestModel (Some 1)) = Some [(''ID'', FUint 1), (''Name'', FString ''Test 1'')]
   \<and> BodyParser testFiber ''name=y'' TestModel [(''ID'', FUint 0), (''Name'', FString [])]
       = Some [(''ID'', FUint 0), (''Name'', FString ''y'')]
   \<and> Process MockDB_GormDB testFiber (VPtr TestModel (Some 1))
        (ctx_SetLocals (testRequest ''PUT'' [''id'' \<mapsto> ''1''] ''name=y'') ''model'' (VPtr TestModel (Some 0)), testWorld)
      = Some ((VPtr TestModel (Some 3), None),
              (ctx_SetLocals (testRequest ''PUT'' [''id'' \<mapsto> ''1''] ''name=y'') ''model'' (VPtr TestModel (Some 0)),
               \<lparr>heap = testHeap @ [CStruct [(''ID'', FUint 1), (''Name'', FString ''y'')]],
                store = testMockDB,
                calls = [CallSave (VPtr TestModel (Some 3))
                           (testHeap @ [CStruct [(''ID'', FUint 1), (''Name'', FString ''y'')]])]\<rparr>))"
proof -
  let ?c = "ctx_SetLocals (testRequest ''PUT'' [''id'' \<mapsto> ''1''] ''name=y'') ''model'' (VPtr TestModel (Some 0))"
  let ?d = "[(''ID'', FTUint), (''Name'', FTString)]"
  let ?efs = "[(''ID'', FUint 1), (''Name'', FString ''Test 1'')]"
  let ?pfs = "[(''ID'', FUint 0), (''Name'', FString ''y'')]"
  let ?inst = "[(''ID'', FUint 1), (''Name'', FString ''y'')]"
  have v: "validateModel ?c = (VPtr (TStruct ''TestModel'' ?d) (Some 0), None)"
    by (simp add: validateModel_def ValueKind_def ctx_Locals_def ctx_SetLocals_def TestModel_def)
  have m: "Method ?c = ''PUT''"
    by (simp add: ctx_SetLocals_def testRequest_def)
  have e: "deref_struct (heap testWorld) (VPtr TestModel (Some 1)) = Some ?efs"
    by (simp add: testWorld_def testHeap_def TestModel_def heap_get_def)
  have et: "decl_of ?efs = ?d"
    by (simp add: decl_of_def)
  have i: "FieldByName ?efs ''ID'' = Some (FUint 1)"
    by (simp add: FieldByName_def)
  have b: "BodyParser testFiber (Body ?c) (TStruct ''TestModel'' ?d) (zero_fields ?d) = Some ?pfs"
    by (simp add: testFiber_def ctx_SetLocals_def testRequest_def zero_fields_def)
  have pt: "decl_of ?pfs = ?d"
    by (simp add: decl_of_def)
  have s: "SetField ?pfs ''ID'' (FUint 1) = Some ?inst"
    by simp
  have sv: "Save MockDB_GormDB (VPtr (TStruct ''TestModel'' ?d) (Some (length (heap testWorld))))
              (heap testWorld @ [CStruct ?inst]) (store testWorld)
            = Some (None, heap testWorld @ [CStruct ?inst], testMockDB)"
    by (simp add: MockDB_GormDB_def mock_Save_def testWorld_def testMockDB_def)
  have w: "heap testWorld = testHeap" "calls testWorld = []" "length testHeap = 3"
    by (simp_all add: testWorld_def testHeap_def)
  from handleUpdate_keeps_identifier[OF v m e et i b pt, of MockDB_GormDB]
  obtain inst where si: "SetField ?pfs ''ID'' (FUint 1) = Some inst"
    and pr: "Process MockDB_GormDB testFiber (VPtr TestModel (Some 1)) (?c, testWorld) =
          (case Save MockDB_GormDB (VPtr (TStruct ''TestModel'' ?d) (Some (length (heap testWorld))))
                  (heap testWorld @ [CStruct inst]) (store testWorld) of
             None \<Rightarrow> None
           | Some (e, h', d') \<Rightarrow>
               Some ((case e of
                        None \<Rightarrow> (VPtr (TStruct ''TestModel'' ?d) (Some (length (heap testWorld))), None)
                      | Some x \<Rightarrow> (VNil, Some (FiberError StatusInternalServerError ''failed to update record''))),
                     (?c, \<lparr>heap = h', store = d',
                           calls = calls testWorld @
                             [CallSave (VPtr (TStruct ''TestModel'' ?d) (Some (length (heap testWorld))))
                                (heap testWorld @ [CStruct inst])]\<rparr>)))"
    by blast
  from si s have ie: "inst = ?inst"
    by simp
  note pr' = pr[unfolded ie sv]
  from pr' have "Process MockDB_GormDB testFiber (VPtr TestModel (Some 1)) (?c, testWorld)
      = Some ((VPtr TestModel (Some 3), None),
              (?c, \<lparr>heap = testHeap @ [CStruct ?inst], store = testMockDB,
                    calls = [CallSave (VPtr TestModel (Some 3)) (testHeap @ [CStruct ?inst])]\<rparr>))"
    by (simp add: w TestModel_def)
  moreover have "BodyParser testFiber ''name=y'' TestModel [(''ID'', FUint 0), (''Name'', FString [])] = Some ?pfs"
    by (simp add: testFiber_def)
  ultimately show ?thesis
    using v e by (simp add: TestModel_def)
qed

section \<open>The collection fetch never answers 204\<close>




section \<open>The single-record lookup writes into the resource's model\<close>

text \<open>
  C8 fails on the code. A resource is created from \<^verbatim>\<open>&TestModel{}\<close>, at address 0; the
  handler attaches that pointer to the context, \<^verbatim>\<open>findById\<close> hands it to \<^verbatim>\<open>First\<close> as the
  destination, and after one \<^verbatim>\<open>GET /testmodels/1\<close> the instance that
  \<^verbatim>\<open>ResourceConfig.Model\<close> points to holds the record found, no longer the zero value.
  \<^verbatim>\<open>findAll\<close>, \<^verbatim>\<open>handleCreate\<close> and \<^verbatim>\<open>handleUpdate\<close> allocate a new destination instead.
\<close>

theorem findById_overwrites_shared_model:
  "Model (config testResource) = VPtr TestModel (Some 0)
   \<and> heap_get (heap testWorld) 0 = Some (CStruct [(''ID'', FUint 0), (''Name'', FString [])])
   \<and> response_of
        (handleOperation testFiber testResource OperationGetItem
           (testRequest ''GET'' [''id'' \<mapsto> ''1''] [], testWorld))
      = Some (None, StatusOK, ''{}'')
   \<and> cell_after 0
        (handleOperation testFiber testResource OperationGetItem
           (testRequest ''GET'' [''id'' \<mapsto> ''1''] [], testWorld))
      = Some (CStruct [(''ID'', FUint 1), (''Name'', FString ''Test 1'')])"
  by code_simp

section \<open>Route registration\<close>

lemma handlers_routes_of: "map r_handler (routes_of tbl cfg) = filter (enabled cfg) (map fst tbl)"
  by (induction tbl) (auto simp: routes_of_def)

lemma count_filter_distinct:
  "distinct xs \<Longrightarrow> length (filter (\<lambda>x. x = a) (filter P xs)) = (if a \<in> set xs \<and> P a then 1 else 0)"
  by (induction xs) auto

lemma count_handlers:
  "length (filter (\<lambda>rt. r_handler rt = op) rs) = length (filter (\<lambda>x. x = op) (map r_handler rs))"
  by (induction rs) auto

lemma route_table_ops:
  "map fst route_table = [OperationGetList, OperationCreate, OperationGetItem, OperationUpdate, OperationDelete]"
  by (simp add: route_table_def)

lemma RegisterRoutes_table_routes: "RegisterRoutes r router = router @ table_routes (config r)"
  by (simp add: RegisterRoutes_def table_routes_def routes_of_def route_table_def Let_def)

lemma table_routes_count:
  "length (filter (\<lambda>rt. r_handler rt = op) (table_routes cfg)) =
     (if op \<in> {OperationGetList, OperationCreate, OperationGetItem, OperationUpdate, OperationDelete}
         \<and> enabled cfg op then 1 else 0)"
proof -
  have d: "distinct (map fst route_table)"
    unfolding route_table_ops by simp
  have s: "set (map fst route_table) =
             {OperationGetList, OperationCreate, OperationGetItem, OperationUpdate, OperationDelete}"
    unfolding route_table_ops by simp
  show ?thesis
    unfolding count_handlers table_routes_def handlers_routes_of count_filter_distinct[OF d] s ..
qed

text \<open>
  C5. \<^verbatim>\<open>RegisterRoutes\<close> adds to the router exactly the rows of the fixed table whose
  operation is in the map and enabled, in the table's order, each with the resource's
  path in front of the row's suffix. So, among the routes added, the number of routes
  that dispatch to \<open>op\<close> is one when \<open>op\<close> is one of the five operations and enabled, and
  zero when it is disabled, absent from the map, or not one of the five.
\<close>

theorem RegisterRoutes_table:
  "RegisterRoutes r router = router @ table_routes (config r)
   \<and> length (filter (\<lambda>rt. r_handler rt = op) (table_routes (config r))) =
       (if op \<in> {OperationGetList, OperationCreate, OperationGetItem, OperationUpdate, OperationDelete}
           \<and> enabled (config r) op then 1 else 0)"
  by (rule conjI[OF RegisterRoutes_table_routes table_routes_count])

theorem RegisterRoutes_table_witness:
  "RegisterRoutes testResource [] =
     [\<lparr>r_method = ''GET'', r_path = ''/testmodels'', r_handler = OperationGetList\<rparr>,
      \<lparr>r_method = ''POST'', r_path = ''/testmodels'', r_handler = OperationCreate\<rparr>,
      \<lparr>r_method = ''GET'', r_path = ''/testmodels/:id'', r_handler = OperationGetItem\<rparr>,
      \<lparr>r_method = ''PUT'', r_path = ''/testmodels/:id'', r_handler = OperationUpdate\<rparr>,
      \<lparr>r_method = ''DELETE'', r_path = ''/testmodels/:id'', r_handler = OperationDelete\<rparr>]
   \<and> RegisterRoutes (testPipeline NilProvider NilProcessor) [] =
     [\<lparr>r_method = ''GET'', r_path = ''/api/test/:id'', r_handler = OperationGetItem\<rparr>]"
proof -
  have a: "table_routes (config testResource) =
     [\<lparr>r_method = ''GET'', r_path = ''/testmodels'', r_handler = OperationGetList\<rparr>,
      \<lparr>r_method = ''POST'', r_path = ''/testmodels'', r_handler = OperationCreate\<rparr>,
      \<lparr>r_method = ''GET'', r_path = ''/testmodels/:id'', r_handler = OperationGetItem\<rparr>,
      \<lparr>r_method = ''PUT'', r_path = ''/testmodels/:id'', r_handler = OperationUpdate\<rparr>,
      \<lparr>r_method = ''DELETE'', r_path = ''/testmodels/:id'', r_handler = OperationDelete\<rparr>]"
    by (simp add: table_routes_def routes_of_def route_table_def enabled_def testResource_def defaultOperation_def)
  have b: "table_routes (config (testPipeline NilProvider NilProcessor)) =
     [\<lparr>r_method = ''GET'', r_path = ''/api/test/:id'', r_handler = OperationGetItem\<rparr>]"
    by (simp add: table_routes_def routes_of_def route_table_def enabled_def testPipeline_def)
  note x = RegisterRoutes_table[of testResource "[]" OperationGetList, THEN conjunct1, unfolded a append_Nil]
  note y = RegisterRoutes_table[of "testPipeline NilProvider NilProcessor" "[]" OperationGetList,
             THEN conjunct1, unfolded b append_Nil]
  show ?thesis
    by (rule conjI[OF x y])
qed

section \<open>The resource manager\<close>

lemma CreateResource_default:
  "TypeOf M = Some t \<Longrightarrow>
   CreateResource rm M [] =
     Some \<lparr>manager = rm,
           config = \<lparr>Model = M,
                     Operations = [OperationCreate \<mapsto> defaultOperation rm,
                                   OperationUpdate \<mapsto> defaultOperation rm,
                                   OperationGetItem \<mapsto> defaultOperation rm,
                                   OperationGetList \<mapsto> defaultOperation rm,
                                   OperationDelete \<mapsto> defaultOperation rm],
                     Path = ''/'' @ ToLower (Name (if Kind t = KPtr then (case Elem t of Some et \<Rightarrow> et | None \<Rightarrow> t) else t)) @ ''s''\<rparr>\<rparr>"
  by (simp add: CreateResource_def Let_def)

text \<open>
  C4. For a model \<open>M\<close> that is a struct of a type named \<open>n\<close>, passed by value or by
  pointer, \<^verbatim>\<open>CreateResource\<close> without customizers returns a resource: it does not panic,
  the Go function has no error result, and the result is a function of the manager and
  the model alone. Its path is \<^verbatim>\<open>"/" + lowercase(n) + "s"\<close>, its model is \<open>M\<close>, and its
  map has exactly the five operations as keys, each enabled and bound to the default
  provider and processor over the manager's storage handle.
\<close>

theorem CreateResource_defaults:
  assumes "M = VStruct n fs \<or> M = VPtr (TStruct n d) ao"
  shows "\<exists>r. CreateResource rm M [] = Some r
           \<and> Path (config r) = ''/'' @ ToLower n @ ''s''
           \<and> Model (config r) = M
           \<and> dom (Operations (config r)) =
               {OperationCreate, OperationUpdate, OperationDelete, OperationGetItem, OperationGetList}
           \<and> (\<forall>op \<in> dom (Operations (config r)).
                 Operations (config r) op =
                   Some \<lparr>Provider = DefaultProvider (DB rm), Processor = DefaultProcessor (DB rm), Enabled = True\<rparr>)"
proof -
  from assms obtain t where t: "TypeOf M = Some t"
    "Name (if Kind t = KPtr then (case Elem t of Some et \<Rightarrow> et | None \<Rightarrow> t) else t) = n"
    by auto
  show ?thesis
    unfolding CreateResource_default[OF t(1)] t(2)
    by (auto simp: defaultOperation_def)
qed

theorem CreateResource_defaults_witness:
  "(\<exists>r. CreateResource testManager (VPtr (TStruct ''TestModel'' [(''ID'', FTUint), (''Name'', FTString)]) (Some 0)) []
          = Some r
        \<and> Path (config r) = ''/testmodels''
        \<and> Model (config r) = VPtr (TStruct ''TestModel'' [(''ID'', FTUint), (''Name'', FTString)]) (Some 0)
        \<and> dom (Operations (config r)) =
            {OperationCreate, OperationUpdate, OperationDelete, OperationGetItem, OperationGetList}
        \<and> Operations (config r) OperationUpdate =
            Some \<lparr>Provider = DefaultProvider MockDB_GormDB, Processor = DefaultProcessor MockDB_GormDB,
                  Enabled = True\<rparr>)
   \<and> (\<exists>r. CreateResource testManager (VStruct ''TestModel'' [(''ID'', FUint 0), (''Name'', FString [])]) []
          = Some r
        \<and> Path (config r) = ''/testmodels''
        \<and> Model (config r) = VStruct ''TestModel'' [(''ID'', FUint 0), (''Name'', FString [])]
        \<and> dom (Operations (config r)) =
            {OperationCreate, OperationUpdate, OperationDelete, OperationGetItem, OperationGetList}
        \<and> Operations (config r) OperationGetList =
            Some \<lparr>Provider = DefaultProvider MockDB_GormDB, Processor = DefaultProcessor MockDB_GormDB,
                  Enabled = True\<rparr>)"
proof -
  let ?d = "[(''ID'', FTUint), (''Name'', FTString)]"
  let ?fs = "[(''ID'', FUint 0), (''Name'', FString [])]"
  have p: "VPtr (TStruct ''TestModel'' ?d) (Some 0) = VStruct ''TestModel'' ?fs
           \<or> VPtr (TStruct ''TestModel'' ?d) (Some 0) = VPtr (TStruct ''TestModel'' ?d) (Some 0)"
    by simp
  have q: "VStruct ''TestModel'' ?fs = VStruct ''TestModel'' ?fs
           \<or> VStruct ''TestModel'' ?fs = VPtr (TStruct ''TestModel'' ?d) None"
    by simp
  have l: "''/'' @ ToLower ''TestModel'' @ ''s'' = ''/testmodels''"
    by code_simp
  have db: "DB testManager = MockDB_GormDB"
    by (simp add: testManager_def)
  note a = CreateResource_defaults[where rm = testManager, OF p, unfolded l db]
  note b = CreateResource_defaults[where rm = testManager, OF q, unfolded l db]
  from a obtain r where r:
    "CreateResource testManager (VPtr (TStruct ''TestModel'' ?d) (Some 0)) [] = Some r
     \<and> Path (config r) = ''/testmodels''
     \<and> Model (config r) = VPtr (TStruct ''TestModel'' ?d) (Some 0)
     \<and> dom (Operations (config r)) =
            {OperationCreate, OperationUpdate, OperationDelete, OperationGetItem, OperationGetList}
     \<and> (\<forall>op \<in> dom (Operations (config r)).
              Operations (config r) op =
                Some \<lparr>Provider = DefaultProvider MockDB_GormDB, Processor = DefaultProcessor MockDB_GormDB,
                      Enabled = True\<rparr>)" ..
  note r1 = r[THEN conjunct1]
    and r2 = r[THEN conjunct2, THEN conjunct1]
    and r3 = r[THEN conjunct2, THEN conjunct2, THEN conjunct1]
    and r4 = r[THEN conjunct2, THEN conjunct2, THEN conjunct2, THEN conjunct1]
    and r5 = r[THEN conjunct2, THEN conjunct2, THEN conjunct2, THEN conjunct2]
  have rm: "OperationUpdate \<in> dom (Operations (config r))"
    unfolding r4 by simp
  note r6 = r5[rule_format, OF rm]
  from b obtain r' where r':
    "CreateResource testManager (VStruct ''TestModel'' ?fs) [] = Some r'
     \<and> Path (config r') = ''/testmodels''
     \<and> Model (config r') = VStruct ''TestModel'' ?fs
     \<and> dom (Operations (config r')) =
            {OperationCreate, OperationUpdate, OperationDelete, OperationGetItem, OperationGetList}
     \<and> (\<forall>op \<in> dom (Operations (config r')).
              Operations (config r') op =
                Some \<lparr>Provider = DefaultProvider MockDB_GormDB, Processor = DefaultProcessor MockDB_GormDB,
                      Enabled = True\<rparr>)" ..
  note s1 = r'[THEN conjunct1]
    and s2 = r'[THEN conjunct2, THEN conjunct1]
    and s3 = r'[THEN conjunct2, THEN conjunct2, THEN conjunct1]
    and s4 = r'[THEN conjunct2, THEN conjunct2, THEN conjunct2, THEN conjunct1]
    and s5 = r'[THEN conjunct2, THEN conjunct2, THEN conjunct2, THEN conjunct2]
  have sm: "OperationGetList \<in> dom (Operations (config r'))"
    unfolding s4 by simp
  note s6 = s5[rule_format, OF sm]
  have x: "\<exists>r. CreateResource testManager (VPtr (TStruct ''TestModel'' ?d) (Some 0)) [] = Some r
        \<and> Path (config r) = ''/testmodels''
        \<and> Model (config r) = VPtr (TStruct ''TestModel'' ?d) (Some 0)
        \<and> dom (Operations (config r)) =
            {OperationCreate, OperationUpdate, OperationDelete, OperationGetItem, OperationGetList}
        \<and> Operations (config r) OperationUpdate =
            Some \<lparr>Provider = DefaultProvider MockDB_GormDB, Processor = DefaultProcessor MockDB_GormDB,
                  Enabled = True\<rparr>"
    by (rule exI[of _ r]) (rule conjI[OF r1 conjI[OF r2 conjI[OF r3 conjI[OF r4 r6]]]])
  have y: "\<exists>r. CreateResource testManager (VStruct ''TestModel'' ?fs) [] = Some r
        \<and> Path (config r) = ''/testmodels''
        \<and> Model (config r) = VStruct ''TestModel'' ?fs
        \<and> dom (Operations (config r)) =
            {OperationCreate, OperationUpdate, OperationDelete, OperationGetItem, OperationGetList}
        \<and> Operations (config r) OperationGetList =
            Some \<lparr>Provider = DefaultProvider MockDB_GormDB, Processor = DefaultProcessor MockDB_GormDB,
                  Enabled = True\<rparr>"
    by (rule exI[of _ r']) (rule conjI[OF s1 conjI[OF s2 conjI[OF s3 conjI[OF s4 s6]]]])
  show ?thesis
    by (rule conjI[OF x y])
qed

lemma foldl_customizers_path:
  assumes "\<forall>f \<in> set cs. \<forall>cfg. valid_path (Path cfg) \<longrightarrow> valid_path (Path (f cfg))"
    and "valid_path (Path cfg0)"
  shows "valid_path (Path (foldl (\<lambda>cfg customizer. customizer cfg) cfg0 cs))"
  using assms by (induction cs arbitrary: cfg0) simp_all

lemma CreateResource_Some:
  assumes "CreateResource rm M cs = Some r"
  obtains cfg0 where "valid_path (Path cfg0)"
    and "config r = foldl (\<lambda>cfg customizer. customizer cfg) cfg0 cs"
proof (cases "TypeOf M")
  case None
  with assms show ?thesis
    by (simp add: CreateResource_def)
next
  case (Some t)
  let ?cfg = "\<lparr>Model = M,
               Operations = [OperationCreate \<mapsto> defaultOperation rm,
                             OperationUpdate \<mapsto> defaultOperation rm,
                             OperationGetItem \<mapsto> defaultOperation rm,
                             OperationGetList \<mapsto> defaultOperation rm,
                             OperationDelete \<mapsto> defaultOperation rm],
               Path = ''/'' @ ToLower (Name (if Kind t = KPtr then (case Elem t of Some et \<Rightarrow> et | None \<Rightarrow> t) else t)) @ ''s''\<rparr>"
  from assms Some have "Some r = Some \<lparr>manager = rm, config = foldl (\<lambda>cfg customizer. customizer cfg) ?cfg cs\<rparr>"
    by (simp add: CreateResource_def Let_def)
  then have c: "config r = foldl (\<lambda>cfg customizer. customizer cfg) ?cfg cs"
    by simp
  have v: "valid_path (Path ?cfg)"
    by simp
  from v c show ?thesis
    by (rule that)
qed

text \<open>
  C9, as amended. When every customizer keeps a path that is non-empty and begins with
  a slash that way (as one that does not set the path does, and as the empty sequence
  does), the path of the resource that \<^verbatim>\<open>CreateResource\<close> returns is non-empty and begins
  with a slash.
\<close>

theorem CreateResource_path_preserved:
  assumes "\<forall>f \<in> set cs. \<forall>cfg. valid_path (Path cfg) \<longrightarrow> valid_path (Path (f cfg))"
    and "CreateResource rm M cs = Some r"
  shows "valid_path (Path (config r))"
proof -
  from assms(2) obtain cfg0 where v: "valid_path (Path cfg0)"
    and c: "config r = foldl (\<lambda>cfg customizer. customizer cfg) cfg0 cs"
    by (rule CreateResource_Some)
  from foldl_customizers_path[OF assms(1) v] c show ?thesis
    by simp
qed

theorem CreateResource_path_preserved_witness:
  "path_of (CreateResource testManager (VPtr TestModel (Some 0)) [customPath]) = Some ''/custom-path''
   \<and> valid_path ''/custom-path''"
proof -
  have h: "\<forall>f \<in> set [customPath]. \<forall>cfg :: MockDB ResourceConfig. valid_path (Path cfg) \<longrightarrow> valid_path (Path (f cfg))"
    by (simp add: customPath_def)
  have "\<exists>r. CreateResource testManager (VPtr TestModel (Some 0)) [customPath] = Some r"
    by (simp add: CreateResource_def Let_def)
  then obtain r where r: "CreateResource testManager (VPtr TestModel (Some 0)) [customPath] = Some r" ..
  have p: "path_of (CreateResource testManager (VPtr TestModel (Some 0)) [customPath]) = Some ''/custom-path''"
    by (simp add: path_of_def CreateResource_def Let_def customPath_def)
  from p r have e: "Path (config r) = ''/custom-path''"
    by (simp add: path_of_def)
  from CreateResource_path_preserved[OF h r] have v: "valid_path ''/custom-path''"
    unfolding e .
  show ?thesis
    by (rule conjI[OF p v])
qed

text \<open>
  C9 as the specification states it fails: a customizer may set any path, and
  \<^verbatim>\<open>CreateResource\<close> validates none. With the customizer that sets the empty path, the
  resource's path is empty.
\<close>

theorem CreateResource_path_counterexample:
  "path_of (CreateResource testManager (VPtr TestModel (Some 0)) [clearPath]) = Some []
   \<and> \<not> valid_path []"
  by (simp add: path_of_def CreateResource_def Let_def clearPath_def)

end
